theory Spec2Isabelle
  imports Main
begin

section \<open>The Persistent Store: \<^verbatim>\<open>LedgerDatabase\<close> (ledger\_database.cc)\<close>

subsection \<open>Wire types of the command interface\<close>

text \<open>
  The mojom types the store exchanges with its callers. The numbers carried by a
  transaction (\<^verbatim>\<open>int32_t version\<close>, \<^verbatim>\<open>compatible_version\<close>) are only stored and
  compared, never computed with, so they are integers here. The payload of a double is
  never inspected by the store; it is carried as the integer of its bit pattern.
\<close>

datatype Status = RESPONSE_OK | INITIALIZATION_ERROR | TRANSACTION_ERROR | COMMAND_ERROR

datatype Type = INITIALIZE | READ | EXECUTE | RUN | MIGRATE | VACUUM | CLOSE

datatype DBValue =
    STRING_VALUE string
  | INT_VALUE int
  | INT64_VALUE int
  | DOUBLE_VALUE int
  | BOOL_VALUE bool
  | NULL_VALUE

datatype RecordBindingType = STRING_TYPE | INT_TYPE | INT64_TYPE | DOUBLE_TYPE | BOOL_TYPE

record DBCommandBinding =
  binding_index :: int
  binding_value :: DBValue

record DBCommand =
  cmd_type :: Type
  cmd_command :: string
  cmd_bindings :: "DBCommandBinding list"
  cmd_record_bindings :: "RecordBindingType list"

record DBTransaction =
  tx_version :: int
  tx_compatible_version :: int
  tx_commands :: "DBCommand list"

type_synonym DBRecord = "DBValue list"

datatype DBCommandResult = Value_result DBValue | Records_result "DBRecord list"

record DBCommandResponse =
  resp_status :: Status
  resp_result :: "DBCommandResult option"

text \<open>
  Modelled from the spec: the declaration of \<^verbatim>\<open>mojom::DBCommandResponse\<close> is not among
  the sources. A response made by \<^verbatim>\<open>DBCommandResponse::New()\<close> carries no result, and its
  status is the value-initialised enumerator, the first one of the response shape
  \<^verbatim>\<open>RESPONSE_OK, INITIALIZATION_ERROR, TRANSACTION_ERROR, COMMAND_ERROR\<close>.
\<close>

definition DBCommandResponse_New :: DBCommandResponse where
  "DBCommandResponse_New = \<lparr>resp_status = RESPONSE_OK, resp_result = None\<rparr>"

subsection \<open>The database file and the sql library\<close>

text \<open>
  What the connection \<^verbatim>\<open>db_\<close> holds: the \<^verbatim>\<open>meta\<close> table kept by \<^verbatim>\<open>sql::MetaTable\<close>
  (absent until created; otherwise the version and the compatible version) and the rest
  of what SQLite keeps (the caller's tables, the state of a transaction), of which
  nothing is assumed.
\<close>

record 'd Database =
  db_meta :: "(int \<times> int) option"
  db_tables :: 'd

text \<open>A prepared \<^verbatim>\<open>sql::Statement\<close>: its text and the parameters bound so far.\<close>

record Statement =
  stmt_sql :: string
  stmt_bound :: "(int \<times> DBValue) list"

text \<open>
  The calls the store makes on the sql library, in the order made. The log is not a
  variable of the source; it is kept so that what a transaction does to the connection
  can be stated.
\<close>

datatype Call =
    CALL_Open
  | CALL_Close
  | CALL_Begin
  | CALL_Commit
  | CALL_Rollback
  | CALL_Execute string
  | CALL_Run Statement
  | CALL_Step Statement
  | CALL_MetaInit int int
  | CALL_MetaGetVersion
  | CALL_MetaSetVersion int
  | CALL_MetaSetCompatibleVersion int
  | CALL_MetaReset

text \<open>
  The sql library and SQLite are outside the repository. Whatever they answer is a
  parameter: whether the file opens; whether a transaction begins and commits, and what
  beginning, committing and rolling back do to the database; what a statement does to
  the database and whether it succeeds; which rows stepping a statement yields (and what
  it does to the database, when the text is not a query); and how a column of a row
  reads at each type. In particular nothing is assumed of what a rollback restores: the
  text of a command goes to SQLite as the caller wrote it, and a text that ends the
  transaction leaves the rollback nothing to undo.
\<close>

record ('d, 'r) sql =
  db_Open :: "'d Database \<Rightarrow> bool"
  committer_Begin :: "'d Database \<Rightarrow> bool \<times> 'd Database"
  committer_Commit :: "'d Database \<Rightarrow> bool \<times> 'd Database"
  committer_Rollback :: "'d Database \<Rightarrow> 'd Database"
  db_Execute :: "string \<Rightarrow> 'd Database \<Rightarrow> bool \<times> 'd Database"
  statement_Run :: "Statement \<Rightarrow> 'd Database \<Rightarrow> bool \<times> 'd Database"
  statement_Step :: "Statement \<Rightarrow> 'd Database \<Rightarrow> 'r list \<times> 'd Database"
  meta_table_Init_ok :: "'d Database \<Rightarrow> bool"
  ColumnString :: "'r \<Rightarrow> nat \<Rightarrow> string"
  ColumnInt :: "'r \<Rightarrow> nat \<Rightarrow> int"
  ColumnInt64 :: "'r \<Rightarrow> nat \<Rightarrow> int"
  ColumnDouble :: "'r \<Rightarrow> nat \<Rightarrow> int"
  ColumnBool :: "'r \<Rightarrow> nat \<Rightarrow> bool"

text \<open>
  The members of \<^verbatim>\<open>LedgerDatabase\<close>: the connection (open or not, and the database
  behind it), \<^verbatim>\<open>initialized_\<close>, whether the memory pressure listener exists, and the
  call log.
\<close>

record 'd LedgerDatabase =
  is_open :: bool
  content :: "'d Database"
  initialized :: bool
  memory_pressure_listener :: bool
  calls :: "Call list"

definition called :: "Call \<Rightarrow> 'd LedgerDatabase \<Rightarrow> 'd LedgerDatabase" where
  "called c db = db\<lparr>calls := calls db @ [c]\<rparr>"

subsection \<open>\<^verbatim>\<open>sql::MetaTable\<close>\<close>

definition DoesTableExist :: "'d Database \<Rightarrow> bool" where
  "DoesTableExist d = (db_meta d \<noteq> None)"

text \<open>
  \<^verbatim>\<open>MetaTable::Init\<close> creates the table with the two numbers when it is absent and
  leaves an existing one alone.
\<close>

definition MetaTable_Init :: "int \<Rightarrow> int \<Rightarrow> 'd Database \<Rightarrow> 'd Database" where
  "MetaTable_Init version compatible_version d =
     (case db_meta d of
        None \<Rightarrow> d\<lparr>db_meta := Some (version, compatible_version)\<rparr>
      | Some m \<Rightarrow> d)"

definition GetVersionNumber :: "'d Database \<Rightarrow> int" where
  "GetVersionNumber d = (case db_meta d of None \<Rightarrow> 0 | Some m \<Rightarrow> fst m)"

definition GetCompatibleVersionNumber :: "'d Database \<Rightarrow> int" where
  "GetCompatibleVersionNumber d = (case db_meta d of None \<Rightarrow> 0 | Some m \<Rightarrow> snd m)"

text \<open>The setters replace a row of the table; without the table they store nothing.\<close>

definition SetVersionNumber :: "int \<Rightarrow> 'd Database \<Rightarrow> 'd Database" where
  "SetVersionNumber version d =
     (case db_meta d of
        None \<Rightarrow> d
      | Some m \<Rightarrow> d\<lparr>db_meta := Some (version, snd m)\<rparr>)"

definition SetCompatibleVersionNumber :: "int \<Rightarrow> 'd Database \<Rightarrow> 'd Database" where
  "SetCompatibleVersionNumber compatible_version d =
     (case db_meta d of
        None \<Rightarrow> d
      | Some m \<Rightarrow> d\<lparr>db_meta := Some (fst m, compatible_version)\<rparr>)"

subsection \<open>Binding parameters and reading rows\<close>

definition HandleBinding :: "Statement \<Rightarrow> DBCommandBinding \<Rightarrow> Statement" where
  "HandleBinding statement binding =
     statement\<lparr>stmt_bound := stmt_bound statement @ [(binding_index binding, binding_value binding)]\<rparr>"

definition prepare :: "DBCommand \<Rightarrow> Statement" where
  "prepare command =
     foldl HandleBinding \<lparr>stmt_sql = cmd_command command, stmt_bound = []\<rparr> (cmd_bindings command)"

fun column_value :: "('d, 'r) sql \<Rightarrow> 'r \<Rightarrow> RecordBindingType \<Rightarrow> nat \<Rightarrow> DBValue" where
  "column_value env row STRING_TYPE column = STRING_VALUE (ColumnString env row column)"
| "column_value env row INT_TYPE column = INT_VALUE (ColumnInt env row column)"
| "column_value env row INT64_TYPE column = INT64_VALUE (ColumnInt64 env row column)"
| "column_value env row DOUBLE_TYPE column = DOUBLE_VALUE (ColumnDouble env row column)"
| "column_value env row BOOL_TYPE column = BOOL_VALUE (ColumnBool env row column)"

fun CreateRecord_from :: "('d, 'r) sql \<Rightarrow> 'r \<Rightarrow> nat \<Rightarrow> RecordBindingType list \<Rightarrow> DBRecord" where
  "CreateRecord_from env row column [] = []"
| "CreateRecord_from env row column (binding # bindings) =
     column_value env row binding column # CreateRecord_from env row (Suc column) bindings"

definition CreateRecord :: "('d, 'r) sql \<Rightarrow> 'r \<Rightarrow> RecordBindingType list \<Rightarrow> DBRecord" where
  "CreateRecord env row bindings = CreateRecord_from env row 0 bindings"

subsection \<open>The commands\<close>

definition CloseDatabase :: "'d LedgerDatabase \<Rightarrow> 'd LedgerDatabase" where
  "CloseDatabase db =
     (called CALL_MetaReset (called CALL_Close db))\<lparr>is_open := False, initialized := False\<rparr>"

definition Initialize ::
  "('d, 'r) sql \<Rightarrow> int \<Rightarrow> int \<Rightarrow> 'd LedgerDatabase \<Rightarrow> DBCommandResponse
     \<Rightarrow> Status \<times> 'd LedgerDatabase \<times> DBCommandResponse" where
  "Initialize env version compatible_version db command_response =
     (if \<not> initialized db then
        (let table_exists = DoesTableExist (content db);
             db1 = called (CALL_MetaInit version compatible_version) db
         in if \<not> meta_table_Init_ok env (content db) then
              (INITIALIZATION_ERROR, db1, command_response)
            else
              (let db2 = db1\<lparr>content := MetaTable_Init version compatible_version (content db1)\<rparr>;
                   db3 = (if table_exists then called CALL_MetaGetVersion db2 else db2);
                   table_version = (if table_exists then GetVersionNumber (content db2) else 0)
               in (RESPONSE_OK,
                   db3\<lparr>initialized := True, memory_pressure_listener := True\<rparr>,
                   command_response\<lparr>resp_result := Some (Value_result (INT_VALUE table_version))\<rparr>)))
      else
        (RESPONSE_OK,
         (called CALL_MetaGetVersion db)\<lparr>memory_pressure_listener := True\<rparr>,
         command_response\<lparr>resp_result :=
           Some (Value_result (INT_VALUE (GetVersionNumber (content db))))\<rparr>))"

definition Execute ::
  "('d, 'r) sql \<Rightarrow> DBCommand \<Rightarrow> 'd LedgerDatabase \<Rightarrow> Status \<times> 'd LedgerDatabase" where
  "Execute env command db =
     (if \<not> initialized db then (INITIALIZATION_ERROR, db)
      else
        (let r = db_Execute env (cmd_command command) (content db);
             db1 = (called (CALL_Execute (cmd_command command)) db)\<lparr>content := snd r\<rparr>
         in if \<not> fst r then (COMMAND_ERROR, db1) else (RESPONSE_OK, db1)))"

definition Run ::
  "('d, 'r) sql \<Rightarrow> DBCommand \<Rightarrow> 'd LedgerDatabase \<Rightarrow> Status \<times> 'd LedgerDatabase" where
  "Run env command db =
     (if \<not> initialized db then (INITIALIZATION_ERROR, db)
      else
        (let statement = prepare command;
             r = statement_Run env statement (content db);
             db1 = (called (CALL_Run statement) db)\<lparr>content := snd r\<rparr>
         in if \<not> fst r then (COMMAND_ERROR, db1) else (RESPONSE_OK, db1)))"

definition Read ::
  "('d, 'r) sql \<Rightarrow> DBCommand \<Rightarrow> 'd LedgerDatabase \<Rightarrow> DBCommandResponse
     \<Rightarrow> Status \<times> 'd LedgerDatabase \<times> DBCommandResponse" where
  "Read env command db command_response =
     (if \<not> initialized db then (INITIALIZATION_ERROR, db, command_response)
      else
        (let statement = prepare command;
             r = statement_Step env statement (content db)
         in (RESPONSE_OK,
             (called (CALL_Step statement) db)\<lparr>content := snd r\<rparr>,
             command_response\<lparr>resp_result := Some (Records_result
               (map (\<lambda>row. CreateRecord env row (cmd_record_bindings command)) (fst r)))\<rparr>)))"

definition Migrate :: "int \<Rightarrow> int \<Rightarrow> 'd LedgerDatabase \<Rightarrow> Status \<times> 'd LedgerDatabase" where
  "Migrate version compatible_version db =
     (if \<not> initialized db then (INITIALIZATION_ERROR, db)
      else
        (let db1 = (called (CALL_MetaSetVersion version) db)
                     \<lparr>content := SetVersionNumber version (content db)\<rparr>;
             db2 = (called (CALL_MetaSetCompatibleVersion compatible_version) db1)
                     \<lparr>content := SetCompatibleVersionNumber compatible_version (content db1)\<rparr>
         in (RESPONSE_OK, db2)))"

subsection \<open>\<^verbatim>\<open>RunTransaction\<close>\<close>

text \<open>
  The body of the \<^verbatim>\<open>switch\<close>: one command gives a status, the store after it, the
  response after it and the vacuum flag after it. \<^verbatim>\<open>NOTREACHED()\<close> in the
  \<^verbatim>\<open>CLOSE\<close> case does nothing in a release build, which is the build modelled.
\<close>

definition run_command ::
  "('d, 'r) sql \<Rightarrow> DBTransaction \<Rightarrow> DBCommand \<Rightarrow> 'd LedgerDatabase \<Rightarrow> DBCommandResponse \<Rightarrow> bool
     \<Rightarrow> Status \<times> 'd LedgerDatabase \<times> DBCommandResponse \<times> bool" where
  "run_command env transaction command db command_response vacuum_requested =
     (case cmd_type command of
        INITIALIZE \<Rightarrow>
          (case Initialize env (tx_version transaction) (tx_compatible_version transaction)
                  db command_response of
             (status, db1, response1) \<Rightarrow> (status, db1, response1, vacuum_requested))
      | READ \<Rightarrow>
          (case Read env command db command_response of
             (status, db1, response1) \<Rightarrow> (status, db1, response1, vacuum_requested))
      | EXECUTE \<Rightarrow>
          (case Execute env command db of
             (status, db1) \<Rightarrow> (status, db1, command_response, vacuum_requested))
      | RUN \<Rightarrow>
          (case Run env command db of
             (status, db1) \<Rightarrow> (status, db1, command_response, vacuum_requested))
      | MIGRATE \<Rightarrow>
          (case Migrate (tx_version transaction) (tx_compatible_version transaction) db of
             (status, db1) \<Rightarrow> (status, db1, command_response, vacuum_requested))
      | VACUUM \<Rightarrow> (RESPONSE_OK, db, command_response, True)
      | CLOSE \<Rightarrow> (COMMAND_ERROR, db, command_response, vacuum_requested))"

text \<open>
  \<^verbatim>\<open>committer.Rollback()\<close>: the database is what the library's rollback makes of it.
\<close>

definition Rollback :: "('d, 'r) sql \<Rightarrow> 'd LedgerDatabase \<Rightarrow> 'd LedgerDatabase" where
  "Rollback env db = (called CALL_Rollback db)\<lparr>content := committer_Rollback env (content db)\<rparr>"

text \<open>
  The \<^verbatim>\<open>for\<close> loop over the commands. \<open>Inl\<close> is the early \<^verbatim>\<open>return\<close> after a
  rollback; \<open>Inr\<close> is falling out of the loop with the vacuum flag.
\<close>

fun run_commands ::
  "('d, 'r) sql \<Rightarrow> DBTransaction \<Rightarrow> DBCommand list
     \<Rightarrow> 'd LedgerDatabase \<Rightarrow> DBCommandResponse \<Rightarrow> bool
     \<Rightarrow> (DBCommandResponse \<times> 'd LedgerDatabase)
       + ('d LedgerDatabase \<times> DBCommandResponse \<times> bool)" where
  "run_commands env transaction [] db command_response vacuum_requested =
     Inr (db, command_response, vacuum_requested)"
| "run_commands env transaction (command # rest) db command_response vacuum_requested =
     (case run_command env transaction command db command_response vacuum_requested of
        (status, db1, response1, vacuum1) \<Rightarrow>
          if status \<noteq> RESPONSE_OK
          then Inl (response1\<lparr>resp_status := status\<rparr>, Rollback env db1)
          else run_commands env transaction rest db1 response1 vacuum1)"

text \<open>
  The first lines of \<^verbatim>\<open>RunTransaction\<close>: the connection is opened when it is not open
  yet; a transaction whose only command is \<^verbatim>\<open>CLOSE\<close> is not run through the loop;
  otherwise \<^verbatim>\<open>committer.Begin()\<close> is called.
\<close>

definition opened :: "'d LedgerDatabase \<Rightarrow> 'd LedgerDatabase" where
  "opened db = (if is_open db then db else (called CALL_Open db)\<lparr>is_open := True\<rparr>)"

definition sole_close :: "DBTransaction \<Rightarrow> bool" where
  "sole_close transaction =
     (length (tx_commands transaction) = 1 \<and> cmd_type (hd (tx_commands transaction)) = CLOSE)"

definition begun :: "('d, 'r) sql \<Rightarrow> 'd LedgerDatabase \<Rightarrow> 'd LedgerDatabase" where
  "begun env db =
     (called CALL_Begin (opened db))\<lparr>content := snd (committer_Begin env (content db))\<rparr>"

definition RunTransaction ::
  "('d, 'r) sql \<Rightarrow> DBTransaction \<Rightarrow> 'd LedgerDatabase
     \<Rightarrow> DBCommandResponse \<times> 'd LedgerDatabase" where
  "RunTransaction env transaction db =
     (let command_response = DBCommandResponse_New in
      if \<not> is_open db \<and> \<not> db_Open env (content db) then
        (command_response\<lparr>resp_status := INITIALIZATION_ERROR\<rparr>, called CALL_Open db)
      else if sole_close transaction then
        (command_response\<lparr>resp_status := RESPONSE_OK\<rparr>, CloseDatabase (opened db))
      else if \<not> fst (committer_Begin env (content db)) then
        (command_response\<lparr>resp_status := TRANSACTION_ERROR\<rparr>, begun env db)
      else
        (case run_commands env transaction (tx_commands transaction) (begun env db)
                command_response False of
           Inl returned \<Rightarrow> returned
         | Inr (db2, response2, vacuum_requested) \<Rightarrow>
             (let db3 = (called CALL_Commit db2)
                          \<lparr>content := snd (committer_Commit env (content db2))\<rparr>
              in if \<not> fst (committer_Commit env (content db2)) then
                   (response2\<lparr>resp_status := TRANSACTION_ERROR\<rparr>, db3)
                 else if vacuum_requested then
                   (response2,
                    (called (CALL_Execute ''VACUUM'') db3)
                      \<lparr>content := snd (db_Execute env ''VACUUM'' (content db3))\<rparr>)
                 else (response2, db3))))"

text \<open>Transactions run one after the other on the same store; the responses in order.\<close>

fun run_transactions ::
  "('d, 'r) sql \<Rightarrow> DBTransaction list \<Rightarrow> 'd LedgerDatabase
     \<Rightarrow> DBCommandResponse list \<times> 'd LedgerDatabase" where
  "run_transactions env [] db = ([], db)"
| "run_transactions env (transaction # rest) db =
     (case RunTransaction env transaction db of
        (response, db1) \<Rightarrow>
          (case run_transactions env rest db1 of
             (responses, db2) \<Rightarrow> (response # responses, db2)))"

subsection \<open>A concrete sql library and store, for evaluating the model\<close>

text \<open>
  The library keeps the rows written (the statement texts that ran) and, while a
  transaction is open, what a rollback would bring back. The text \<^verbatim>\<open>bad\<close> fails and
  leaves a partial write behind; \<^verbatim>\<open>VACUUM\<close> fails and changes nothing; the text
  \<^verbatim>\<open>COMMIT\<close> ends the open transaction, as it does in SQLite, after which a rollback
  finds nothing to undo.
\<close>

record demo_file =
  rows :: "string list"
  journal :: "((int \<times> int) option \<times> string list) option"

definition write_row :: "string \<Rightarrow> demo_file Database \<Rightarrow> demo_file Database" where
  "write_row text d = d\<lparr>db_tables := (db_tables d)\<lparr>rows := rows (db_tables d) @ [text]\<rparr>\<rparr>"

definition end_transaction :: "demo_file Database \<Rightarrow> demo_file Database" where
  "end_transaction d = d\<lparr>db_tables := (db_tables d)\<lparr>journal := None\<rparr>\<rparr>"

definition run_text :: "string \<Rightarrow> demo_file Database \<Rightarrow> bool \<times> demo_file Database" where
  "run_text text d =
     (if text = ''VACUUM'' then (False, d)
      else if text = ''bad'' then (False, write_row ''partial'' d)
      else if text = ''COMMIT'' then (True, end_transaction d)
      else (True, write_row text d))"

definition demo_Begin :: "demo_file Database \<Rightarrow> bool \<times> demo_file Database" where
  "demo_Begin d =
     (True, d\<lparr>db_tables := (db_tables d)\<lparr>journal := Some (db_meta d, rows (db_tables d))\<rparr>\<rparr>)"

definition demo_Rollback :: "demo_file Database \<Rightarrow> demo_file Database" where
  "demo_Rollback d =
     (case journal (db_tables d) of
        None \<Rightarrow> d
      | Some kept \<Rightarrow> \<lparr>db_meta = fst kept, db_tables = \<lparr>rows = snd kept, journal = None\<rparr>\<rparr>)"

definition demo_sql :: "(demo_file, string) sql" where
  "demo_sql = \<lparr>
     db_Open = (\<lambda>d. True),
     committer_Begin = demo_Begin,
     committer_Commit = (\<lambda>d. (True, end_transaction d)),
     committer_Rollback = demo_Rollback,
     db_Execute = run_text,
     statement_Run = (\<lambda>s d. run_text (stmt_sql s) d),
     statement_Step = (\<lambda>s d. (rows (db_tables d), d)),
     meta_table_Init_ok = (\<lambda>d. True),
     ColumnString = (\<lambda>row column. row),
     ColumnInt = (\<lambda>row column. int (length row)),
     ColumnInt64 = (\<lambda>row column. int (length row)),
     ColumnDouble = (\<lambda>row column. 0),
     ColumnBool = (\<lambda>row column. row \<noteq> [])\<rparr>"

definition file_of :: "(int \<times> int) option \<Rightarrow> string list \<Rightarrow> demo_file Database" where
  "file_of meta written = \<lparr>db_meta = meta, db_tables = \<lparr>rows = written, journal = None\<rparr>\<rparr>"

definition fresh_store :: "demo_file LedgerDatabase" where
  "fresh_store =
     \<lparr>is_open = False, content = file_of None [],
      initialized = False, memory_pressure_listener = False, calls = []\<rparr>"

definition cmd :: "Type \<Rightarrow> string \<Rightarrow> DBCommand" where
  "cmd t text =
     \<lparr>cmd_type = t, cmd_command = text, cmd_bindings = [], cmd_record_bindings = []\<rparr>"

definition tx :: "int \<Rightarrow> DBCommand list \<Rightarrow> DBTransaction" where
  "tx v cs = \<lparr>tx_version = v, tx_compatible_version = v, tx_commands = cs\<rparr>"

text \<open>The store after \<^verbatim>\<open>INITIALIZE\<close> and one write, at version 5.\<close>

definition ready_store :: "demo_file LedgerDatabase" where
  "ready_store =
     \<lparr>is_open = True, content = file_of (Some (5, 5)) [''a''],
      initialized = True, memory_pressure_listener = True, calls = []\<rparr>"

section \<open>The State Migrator: \<^verbatim>\<open>StateMigrationV10\<close> (state\_migration\_v10.cc)\<close>

text \<open>The results of \<^verbatim>\<open>type::Result\<close> that the sources name.\<close>

datatype Result = LEDGER_OK | LEDGER_ERROR | NOT_FOUND

text \<open>
  A parsed JSON document (\<^verbatim>\<open>base::Value\<close>). The payload of a double is not looked
  at; it is carried as the integer of its bit pattern.
\<close>

datatype Value =
    NONE_json
  | BOOLEAN_json bool
  | INTEGER_json int
  | DOUBLE_json int
  | STRING_json string
  | LIST_json "Value list"
  | DICTIONARY_json "(string \<times> Value) list"

fun is_dict :: "Value \<Rightarrow> bool" where
  "is_dict (DICTIONARY_json entries) = True"
| "is_dict other = False"

text \<open>\<^verbatim>\<open>FindStringKey\<close>: the string stored under the key, if the key holds a string.\<close>

fun FindStringKey :: "Value \<Rightarrow> string \<Rightarrow> string option" where
  "FindStringKey (DICTIONARY_json entries) key =
     (case map_of entries key of
        Some (STRING_json text) \<Rightarrow> Some text
      | _ \<Rightarrow> None)"
| "FindStringKey other key = None"

record RewardsWallet =
  payment_id :: string
  recovery_seed :: string

text \<open>
  What the migration calls and does not define: decryption of the preference value, the
  JSON reader, the base64 decoder (each may fail), and \<^verbatim>\<open>RewardsWalletStore::SaveNew\<close>,
  whose future is taken to complete with the flag given here.
\<close>

record migration_env =
  Base64DecryptString :: "string \<Rightarrow> string option"
  JSONReader_Read :: "string \<Rightarrow> Value option"
  Base64Decode :: "string \<Rightarrow> string option"
  SaveNew :: "string \<Rightarrow> string \<Rightarrow> bool"

definition ParseWalletJSON :: "migration_env \<Rightarrow> string \<Rightarrow> RewardsWallet option" where
  "ParseWalletJSON env data =
     (case JSONReader_Read env data of
        None \<Rightarrow> None
      | Some root \<Rightarrow>
          if \<not> is_dict root then None
          else
            (case FindStringKey root ''payment_id'' of
               None \<Rightarrow> None
             | Some payment \<Rightarrow>
                 (case FindStringKey root ''recovery_seed'' of
                    None \<Rightarrow> None
                  | Some seed \<Rightarrow>
                      (case Base64Decode env seed of
                         None \<Rightarrow> None
                       | Some decoded_seed \<Rightarrow>
                           Some \<lparr>payment_id = payment, recovery_seed = decoded_seed\<rparr>))))"

text \<open>
  What one run of \<^verbatim>\<open>Migrate\<close> does that can be seen from outside: the results its
  callback is invoked with, the lines logged at level 0, and the calls of
  \<^verbatim>\<open>SaveNew\<close> with the flag each completed with.
\<close>

record migration =
  resolved :: "Result list"
  logged :: "string list"
  saved :: "(RewardsWallet \<times> bool) list"

definition StateMigrationV10_Migrate :: "migration_env \<Rightarrow> string \<Rightarrow> migration" where
  "StateMigrationV10_Migrate env pref_data =
     (if pref_data = [] then \<lparr>resolved = [LEDGER_OK], logged = [], saved = []\<rparr>
      else
        (case Base64DecryptString env pref_data of
           None \<Rightarrow>
             \<lparr>resolved = [LEDGER_OK],
              logged = [''Rewards wallet data could not be decrypted from user preferences''],
              saved = []\<rparr>
         | Some json \<Rightarrow>
             (case ParseWalletJSON env json of
                None \<Rightarrow>
                  \<lparr>resolved = [LEDGER_OK],
                   logged = [''Rewards wallet could not be parsed from user preferences''],
                   saved = []\<rparr>
              | Some result \<Rightarrow>
                  (let success = SaveNew env (payment_id result) (recovery_seed result)
                   in \<lparr>resolved = [LEDGER_OK],
                       logged = [''Error migrating Rewards wallet to database''],
                       saved = [(result, success)]\<rparr>))))"

subsection \<open>A concrete environment, for evaluating the model\<close>

text \<open>
  Decryption strips a leading \<^verbatim>\<open>E\<close> and fails without one. The reader knows two
  documents, one complete and one without the seed. Base64 decoding fails on the text
  \<^verbatim>\<open>!\<close>. The wallet store reports failure.
\<close>

definition demo_migration_env :: migration_env where
  "demo_migration_env = \<lparr>
     Base64DecryptString = (\<lambda>text. case text of [] \<Rightarrow> None
                                | c # rest \<Rightarrow> if c = CHR ''E'' then Some rest else None),
     JSONReader_Read = (\<lambda>text.
        if text = ''full'' then
          Some (DICTIONARY_json [(''payment_id'', STRING_json ''id''),
                                 (''recovery_seed'', STRING_json ''c2VlZA=='')])
        else if text = ''noseed'' then
          Some (DICTIONARY_json [(''payment_id'', STRING_json ''id'')])
        else None),
     Base64Decode = (\<lambda>text. if text = ''!'' then None else Some ''seed''),
     SaveNew = (\<lambda>payment seed. False)\<rparr>"

section \<open>The Custodian Wallet Authorizer\<close>

text \<open>
  Modelled from the spec: \<^verbatim>\<open>Uphold::WalletAuthorization\<close> and the authorization code
  behind it are not among the sources; only the unit tests that call it are
  (uphold\_unittest.cc). The model takes its steps from section 4.2 of the specification
  and, where the table of the unit tests pins more down than the specification says, from
  that table: the order of the checks is the order of its cases 00 to 14.
\<close>

datatype WalletStatus = NOT_CONNECTED | PENDING | VERIFIED | DISCONNECTED_VERIFIED

text \<open>
  Modelled from the spec: the stored wallet of section 3 (a custodian identifier, a
  status, an address, an access token and a linking nonce); its declaration is not among
  the sources. The tests name the fields \<^verbatim>\<open>status\<close>, \<^verbatim>\<open>token\<close>, \<^verbatim>\<open>address\<close> and
  \<^verbatim>\<open>one_time_string\<close>.
\<close>

record CustodianWallet =
  wallet_type :: string
  wallet_status :: WalletStatus
  wallet_address :: string
  wallet_token :: string
  one_time_string :: string

text \<open>
  Modelled from the spec: the answer of the custodian's token endpoint, section 6: the
  field \<^verbatim>\<open>access_token\<close> on success, the field \<^verbatim>\<open>error_description\<close> on failure, or
  no usable answer at all (a transport error, section 7; the status 500 of case 11).
\<close>

datatype ExchangeResponse =
    ACCESS_TOKEN string
  | ERROR_DESCRIPTION string
  | TRANSPORT_ERROR

text \<open>
  Modelled from the spec: what lies outside the authorizer.
  \<^item> \<open>regenerated\<close>: the one-time string that the call stores before it reads its
    arguments. The tests show that write and where it stands (it may fail before the
    arguments are looked at, case 02 against case 05; the success path writes twice, case
    13 against case 14) and that it leaves the status alone (cases 03 to 08); the linking
    nonce being a one-time value, the write is taken to renew it. Nothing is assumed of
    the new string; it may be the old one.
  \<^item> \<open>SetWallet_1\<close>, \<open>SetWallet_2\<close>: whether the first and the second write succeed
    (``SetWallet() returns (1)'' and ``(2)'' in the table).
  \<^item> \<open>exchange\<close>: the token endpoint, from an authorization code to its answer.
  \<^item> \<open>during_exchange\<close>: what the store holds when the endpoint has answered, given
    what it held when the code was sent (``Uphold wallet (2)'' in the table, read a
    second time).
  \<^item> \<open>verifies_at_once\<close>: a custodian either verifies at once or leaves the wallet
    pending (section 4.2, step 8; Uphold leaves it pending, case 14).
\<close>

record custodian =
  regenerated :: "CustodianWallet \<Rightarrow> string"
  SetWallet_1 :: "CustodianWallet \<Rightarrow> bool"
  exchange :: "string \<Rightarrow> ExchangeResponse"
  during_exchange :: "CustodianWallet option \<Rightarrow> CustodianWallet option"
  SetWallet_2 :: "CustodianWallet \<Rightarrow> bool"
  verifies_at_once :: bool

text \<open>
  Modelled from the spec: the outcome of one call of \<^verbatim>\<open>WalletAuthorization\<close>, which
  is not among the sources: the result and the extra arguments handed to the callback,
  the stored wallet afterwards, and the authorization codes sent to the token endpoint.
\<close>

record authorization =
  auth_result :: Result
  auth_args :: "(string \<times> string) list"
  auth_wallet :: "CustodianWallet option"
  auth_exchanged :: "string list"

text \<open>
  Modelled from the spec: an argument of the call (section 4.2, step 3); one that is not
  supplied reads as the empty string.
\<close>

definition argument :: "(string \<times> string) list \<Rightarrow> string \<Rightarrow> string" where
  "argument args key = (case map_of args key of None \<Rightarrow> [] | Some text \<Rightarrow> text)"

text \<open>
  Modelled from the spec: a step that fails ends the call with its result and no extra
  arguments; the store holds what it held at that step.
\<close>

definition failed :: "Result \<Rightarrow> CustodianWallet option \<Rightarrow> string list \<Rightarrow> authorization" where
  "failed result stored exchanged =
     \<lparr>auth_result = result, auth_args = [], auth_wallet = stored, auth_exchanged = exchanged\<rparr>"

text \<open>
  Modelled from the spec: the wallet as the first write stores it, and as the last write
  stores it (section 4.2, step 8: the access token, and the status the custodian's
  semantics give).
\<close>

definition renewed :: "custodian \<Rightarrow> CustodianWallet \<Rightarrow> CustodianWallet" where
  "renewed env wallet = wallet\<lparr>one_time_string := regenerated env wallet\<rparr>"

definition authorized :: "custodian \<Rightarrow> string \<Rightarrow> CustodianWallet \<Rightarrow> CustodianWallet" where
  "authorized env access_token wallet =
     wallet\<lparr>wallet_token := access_token,
            wallet_status := (if verifies_at_once env then VERIFIED else PENDING)\<rparr>"

text \<open>
  Modelled from the spec: what follows the token exchange. The wallet is read again
  (cases 09 and 10 of the table: it may be gone, or verified in the meantime); then
  section 4.2, steps 6 to 8. The description by which the custodian reports an
  ineligible user is the one of case 03.
\<close>

definition OnAuthorize ::
  "custodian \<Rightarrow> string \<Rightarrow> ExchangeResponse \<Rightarrow> CustodianWallet option \<Rightarrow> authorization" where
  "OnAuthorize env code response stored =
     (case stored of
        None \<Rightarrow> failed LEDGER_ERROR stored [code]
      | Some wallet \<Rightarrow>
          if wallet_status wallet = VERIFIED then failed LEDGER_ERROR stored [code]
          else
            (case response of
               ERROR_DESCRIPTION description \<Rightarrow>
                 if description = ''User does not meet minimum requirements''
                 then failed NOT_FOUND stored [code]
                 else failed LEDGER_ERROR stored [code]
             | TRANSPORT_ERROR \<Rightarrow> failed LEDGER_ERROR stored [code]
             | ACCESS_TOKEN access_token \<Rightarrow>
                 if access_token = [] then failed LEDGER_ERROR stored [code]
                 else if SetWallet_2 env (authorized env access_token wallet) then
                   \<lparr>auth_result = LEDGER_OK, auth_args = [],
                    auth_wallet = Some (authorized env access_token wallet),
                    auth_exchanged = [code]\<rparr>
                 else failed LEDGER_ERROR stored [code]))"

text \<open>
  Modelled from the spec: \<^verbatim>\<open>WalletAuthorization\<close>, section 4.2, in the order of the
  cases of the table: the wallet is read (00) and must not be verified (01); it is
  written once (02); an \<^verbatim>\<open>error_description\<close> among the arguments ends the call, with
  \<^verbatim>\<open>NOT_FOUND\<close> for an ineligible user (03, 04); the arguments, the code and the state
  must not be empty (05 to 07) and the state must be the nonce that was read (08); the
  code is exchanged and the answer handled as above (09 to 14).
\<close>

definition WalletAuthorization ::
  "custodian \<Rightarrow> (string \<times> string) list \<Rightarrow> CustodianWallet option \<Rightarrow> authorization" where
  "WalletAuthorization env args stored =
     (case stored of
        None \<Rightarrow> failed LEDGER_ERROR stored []
      | Some wallet \<Rightarrow>
          if wallet_status wallet = VERIFIED then failed LEDGER_ERROR stored []
          else if \<not> SetWallet_1 env (renewed env wallet) then failed LEDGER_ERROR stored []
          else
            (let stored1 = Some (renewed env wallet) in
             case map_of args ''error_description'' of
               Some description \<Rightarrow>
                 if description = ''User does not meet minimum requirements''
                 then failed NOT_FOUND stored1 []
                 else failed LEDGER_ERROR stored1 []
             | None \<Rightarrow>
                 if args = [] then failed LEDGER_ERROR stored1 []
                 else if argument args ''code'' = [] then failed LEDGER_ERROR stored1 []
                 else if argument args ''state'' = [] then failed LEDGER_ERROR stored1 []
                 else if argument args ''state'' \<noteq> one_time_string wallet then
                   failed LEDGER_ERROR stored1 []
                 else
                   OnAuthorize env (argument args ''code'')
                     (exchange env (argument args ''code'')) (during_exchange env stored1)))"

subsection \<open>The wallets and the custodian of the unit tests\<close>

text \<open>
  A wallet document of the table: a status and a one-time string. A custodian of the
  table: the answer of the first write, the answer of the token endpoint, the wallet of
  the second read and the answer of the second write; the renewed one-time string is
  \<^verbatim>\<open>next\<close>.
\<close>

definition test_wallet :: "WalletStatus \<Rightarrow> string \<Rightarrow> CustodianWallet" where
  "test_wallet status nonce =
     \<lparr>wallet_type = ''uphold'', wallet_status = status, wallet_address = [],
      wallet_token = [], one_time_string = nonce\<rparr>"

definition test_custodian ::
  "bool \<Rightarrow> ExchangeResponse \<Rightarrow> CustodianWallet option \<Rightarrow> bool \<Rightarrow> custodian" where
  "test_custodian set_wallet_1 response wallet_2 set_wallet_2 =
     \<lparr>regenerated = (\<lambda>wallet. ''next''), SetWallet_1 = (\<lambda>wallet. set_wallet_1),
      exchange = (\<lambda>code. response), during_exchange = (\<lambda>stored. wallet_2),
      SetWallet_2 = (\<lambda>wallet. set_wallet_2), verifies_at_once = False\<rparr>"

text \<open>
  A custodian in a quiet world: both writes succeed and nothing else touches the store
  while the code is exchanged.
\<close>

definition quiet_custodian :: "ExchangeResponse \<Rightarrow> custodian" where
  "quiet_custodian response =
     \<lparr>regenerated = (\<lambda>wallet. ''next''), SetWallet_1 = (\<lambda>wallet. True),
      exchange = (\<lambda>code. response), during_exchange = (\<lambda>stored. stored),
      SetWallet_2 = (\<lambda>wallet. True), verifies_at_once = False\<rparr>"

section \<open>The Refill Coordinator: \<^verbatim>\<open>RefillUnblindedTokens\<close>\<close>

text \<open>
  Modelled from the spec: the requests a cycle sends, section 4.1, steps 2 and 4: the
  fetch of the issuer set, and the exchange of blinded tokens for signed ones, which
  carries the wallet and a nonce.
\<close>

datatype 'w Request =
    REQUEST_ISSUERS
  | REQUEST_SIGNED_TOKENS 'w string "string list"

text \<open>
  The members are those that refill\_unblinded\_tokens.h declares: the wallet, the nonce,
  the tokens and blinded tokens of the cycle, and \<^verbatim>\<open>is_processing_\<close>, which starts out
  false. Tokens are opaque. Two facts that the class reads from elsewhere are kept with
  them (how many unblinded tokens are unspent, whether a valid issuer set is held), as
  are the requests sent so far.
\<close>

record 'w RefillUnblindedTokens =
  refill_wallet :: 'w
  refill_nonce :: string
  refill_tokens :: "string list"
  refill_blinded_tokens :: "string list"
  is_processing :: bool
  unspent_tokens :: nat
  issuers_valid :: bool
  requests :: "'w Request list"

text \<open>
  Modelled from the spec: the parameters of a refill, section 4.1: the reserve to reach,
  the injected token generator, the blinding of a token and the nonce chosen for a
  request.
\<close>

record refill_env =
  target_reserve :: nat
  generate :: "nat \<Rightarrow> string list"
  blind :: "string \<Rightarrow> string"
  choose_nonce :: "string list \<Rightarrow> string"

text \<open>
  Modelled from the spec: refill\_unblinded\_tokens.cc is not among the sources. Section
  4.1, step 1: the number of tokens needed is the reserve less the unspent tokens.
\<close>

definition CalculateAmountOfTokensToRefill :: "refill_env \<Rightarrow> 'w RefillUnblindedTokens \<Rightarrow> int" where
  "CalculateAmountOfTokensToRefill env s = int (target_reserve env) - int (unspent_tokens s)"

text \<open>
  Modelled from the spec: section 4.1, step 1: a refill is due when tokens are needed.
\<close>

definition ShouldRefillUnblindedTokens :: "refill_env \<Rightarrow> 'w RefillUnblindedTokens \<Rightarrow> bool" where
  "ShouldRefillUnblindedTokens env s = (0 < CalculateAmountOfTokensToRefill env s)"

text \<open>
  Modelled from the spec: section 4.1, steps 3 and 4: generate the needed tokens, blind
  them and ask the issuer to sign them, under a nonce.
\<close>

definition RequestSignedTokens :: "refill_env \<Rightarrow> 'w RefillUnblindedTokens \<Rightarrow> 'w RefillUnblindedTokens" where
  "RequestSignedTokens env s =
     (let tokens = generate env (nat (CalculateAmountOfTokensToRefill env s));
          blinded = map (blind env) tokens;
          nonce = choose_nonce env blinded
      in s\<lparr>refill_tokens := tokens, refill_blinded_tokens := blinded, refill_nonce := nonce,
           requests := requests s @ [REQUEST_SIGNED_TOKENS (refill_wallet s) nonce blinded]\<rparr>)"

text \<open>
  Modelled from the spec: a cycle starts by raising the flag; section 4.1, step 2: the
  issuer set is fetched first unless a valid one is held.
\<close>

definition Refill :: "refill_env \<Rightarrow> 'w RefillUnblindedTokens \<Rightarrow> 'w RefillUnblindedTokens" where
  "Refill env s =
     (let s1 = s\<lparr>is_processing := True\<rparr>
      in if issuers_valid s1 then RequestSignedTokens env s1
         else s1\<lparr>requests := requests s1 @ [REQUEST_ISSUERS]\<rparr>)"

text \<open>
  Modelled from the spec: \<^verbatim>\<open>MaybeRefill\<close>, sections 4.1 and 5: a call while a cycle is
  in flight is dropped; a call when nothing is needed returns without a request;
  otherwise a cycle starts for the wallet given.
\<close>

definition MaybeRefill ::
  "refill_env \<Rightarrow> 'w \<Rightarrow> 'w RefillUnblindedTokens \<Rightarrow> 'w RefillUnblindedTokens" where
  "MaybeRefill env wallet s =
     (if is_processing s then s
      else if \<not> ShouldRefillUnblindedTokens env s then s
      else Refill env (s\<lparr>refill_wallet := wallet\<rparr>))"

definition demo_refill_env :: refill_env where
  "demo_refill_env =
     \<lparr>target_reserve = 3, generate = (\<lambda>n. replicate n ''t''), blind = (\<lambda>t. CHR ''b'' # t),
      choose_nonce = (\<lambda>blinded. ''n'')\<rparr>"

definition idle_refill :: "string RefillUnblindedTokens" where
  "idle_refill =
     \<lparr>refill_wallet = [], refill_nonce = [], refill_tokens = [], refill_blinded_tokens = [],
      is_processing = False, unspent_tokens = 1, issuers_valid = True, requests = []\<rparr>"

section \<open>Properties of the Persistent Store\<close>

lemmas store_defs =
  RunTransaction_def run_command_def Initialize_def Execute_def Run_def Read_def
  Migrate_def CloseDatabase_def Rollback_def called_def DBCommandResponse_New_def
  MetaTable_Init_def GetVersionNumber_def
  SetVersionNumber_def SetCompatibleVersionNumber_def
  DoesTableExist_def prepare_def HandleBinding_def CreateRecord_def opened_def sole_close_def
  begun_def

lemmas demo_defs = demo_sql_def fresh_store_def ready_store_def cmd_def tx_def run_text_def
  demo_Begin_def demo_Rollback_def write_row_def end_transaction_def file_of_def

subsection \<open>What one command and the loop preserve\<close>

lemmas command_defs = run_command_def Initialize_def Execute_def Run_def Read_def Migrate_def

lemma run_command_status:
  "fst (run_command env t c db r v) \<in> {RESPONSE_OK, INITIALIZATION_ERROR, COMMAND_ERROR}"
  by (cases "cmd_type c") (auto simp: command_defs Let_def split: prod.splits)

lemma run_command_keeps:
  assumes "run_command env t c db r v = (s, db', r', v')"
  shows "is_open db' = is_open db"
    and "initialized db \<longrightarrow> initialized db'"
    and "resp_status r' = resp_status r"
    and "\<exists>new. calls db' = calls db @ new \<and> CALL_Close \<notin> set new
           \<and> CALL_Commit \<notin> set new \<and> CALL_Rollback \<notin> set new"
    and "v' = (v \<or> cmd_type c = VACUUM)"
    and "\<not> (cmd_type c = EXECUTE \<and> cmd_command c = ''VACUUM'') \<longrightarrow>
           count_list (calls db') (CALL_Execute ''VACUUM'')
             = count_list (calls db) (CALL_Execute ''VACUUM'')"
  using assms
  by (cases "cmd_type c"; auto simp: command_defs called_def Let_def split: prod.splits if_splits)+

lemma run_command_close:
  "cmd_type c = CLOSE \<Longrightarrow> run_command env t c db r v = (COMMAND_ERROR, db, r, v)"
  by (simp add: run_command_def)

lemma run_commands_append:
  "run_commands env t (before @ later) db r v =
     (case run_commands env t before db r v of
        Inl returned \<Rightarrow> Inl returned
      | Inr (db1, r1, v1) \<Rightarrow> run_commands env t later db1 r1 v1)"
  by (induction before arbitrary: db r v) (auto split: prod.splits)

text \<open>
  A loop that returns early did so at a first failing command: the commands before it
  succeeded, none of them is a \<^verbatim>\<open>CLOSE\<close>, and what is returned is the response with that
  command's status and the store after the rollback that follows it.
\<close>

lemma run_commands_Inr_no_close:
  assumes "run_commands env t cs db r v = Inr (db', r', v')"
  shows "\<forall>c \<in> set cs. cmd_type c \<noteq> CLOSE"
  using assms
proof (induction cs arbitrary: db r v)
  case Nil
  then show ?case by simp
next
  case (Cons c cs)
  obtain s db1 r1 v1 where step: "run_command env t c db r v = (s, db1, r1, v1)"
    by (cases "run_command env t c db r v") auto
  have ok: "s = RESPONSE_OK"
    using step Cons.prems by (auto split: if_splits)
  have rest: "run_commands env t cs db1 r1 v1 = Inr (db', r', v')"
    using step ok Cons.prems by simp
  have "cmd_type c \<noteq> CLOSE"
    using step ok by (auto simp: run_command_def)
  with Cons.IH [OF rest] show ?case by simp
qed

lemma run_commands_first_failure:
  assumes "run_commands env t cs db r v = Inl (r', db')"
  shows "\<exists>before failing later db1 r1 v1 s db2 r2 v2.
           cs = before @ failing # later
         \<and> run_commands env t before db r v = Inr (db1, r1, v1)
         \<and> run_command env t failing db1 r1 v1 = (s, db2, r2, v2)
         \<and> s \<noteq> RESPONSE_OK
         \<and> r' = r2\<lparr>resp_status := s\<rparr> \<and> db' = Rollback env db2"
  using assms
proof (induction cs arbitrary: db r v)
  case Nil
  then show ?case by simp
next
  case (Cons c cs)
  obtain s db1 r1 v1 where step: "run_command env t c db r v = (s, db1, r1, v1)"
    by (cases "run_command env t c db r v") auto
  show ?case
  proof (cases "s = RESPONSE_OK")
    case False
    have "r' = r1\<lparr>resp_status := s\<rparr>" "db' = Rollback env db1"
      using step False Cons.prems by simp_all
    then have "c # cs = [] @ c # cs
         \<and> run_commands env t [] db r v = Inr (db, r, v)
         \<and> run_command env t c db r v = (s, db1, r1, v1)
         \<and> s \<noteq> RESPONSE_OK
         \<and> r' = r1\<lparr>resp_status := s\<rparr> \<and> db' = Rollback env db1"
      using step False by simp
    then show ?thesis by blast
  next
    case True
    have "run_commands env t cs db1 r1 v1 = Inl (r', db')"
      using step True Cons.prems by simp
    from Cons.IH [OF this] obtain before failing later da ra va s' db2 r2 v2 where
      ih: "cs = before @ failing # later"
        "run_commands env t before db1 r1 v1 = Inr (da, ra, va)"
        "run_command env t failing da ra va = (s', db2, r2, v2)"
        "s' \<noteq> RESPONSE_OK"
        "r' = r2\<lparr>resp_status := s'\<rparr>" "db' = Rollback env db2"
      by blast
    have "c # cs = (c # before) @ failing # later
         \<and> run_commands env t (c # before) db r v = Inr (da, ra, va)
         \<and> run_command env t failing da ra va = (s', db2, r2, v2)
         \<and> s' \<noteq> RESPONSE_OK
         \<and> r' = r2\<lparr>resp_status := s'\<rparr> \<and> db' = Rollback env db2"
      using ih step True by simp
    then show ?thesis by blast
  qed
qed

lemma run_commands_Inr:
  assumes "run_commands env t cs db r v = Inr (db', r', v')"
  shows "resp_status r' = resp_status r
       \<and> is_open db' = is_open db
       \<and> (initialized db \<longrightarrow> initialized db')
       \<and> (\<exists>new. calls db' = calls db @ new
              \<and> CALL_Close \<notin> set new \<and> CALL_Commit \<notin> set new
              \<and> CALL_Rollback \<notin> set new)"
  using assms
proof (induction cs arbitrary: db r v)
  case Nil
  then show ?case by simp
next
  case (Cons c cs)
  obtain s db1 r1 v1 where step: "run_command env t c db r v = (s, db1, r1, v1)"
    by (cases "run_command env t c db r v") auto
  note keeps = run_command_keeps [OF step]
  obtain new1 where n1: "calls db1 = calls db @ new1" "CALL_Close \<notin> set new1"
      "CALL_Commit \<notin> set new1" "CALL_Rollback \<notin> set new1"
    using keeps(4) by blast
  have ok: "s = RESPONSE_OK"
    using step Cons.prems by (auto split: if_splits)
  have "run_commands env t cs db1 r1 v1 = Inr (db', r', v')"
    using step ok Cons.prems by simp
  from Cons.IH [OF this] obtain new2 where
    ih: "resp_status r' = resp_status r1"
      "is_open db' = is_open db1" "initialized db1 \<longrightarrow> initialized db'"
      "calls db' = calls db1 @ new2"
      "CALL_Close \<notin> set new2" "CALL_Commit \<notin> set new2" "CALL_Rollback \<notin> set new2"
    by blast
  have "calls db' = calls db @ (new1 @ new2)
      \<and> CALL_Close \<notin> set (new1 @ new2) \<and> CALL_Commit \<notin> set (new1 @ new2)
      \<and> CALL_Rollback \<notin> set (new1 @ new2)"
    using ih n1 by simp
  then have d: "\<exists>new. calls db' = calls db @ new
      \<and> CALL_Close \<notin> set new \<and> CALL_Commit \<notin> set new \<and> CALL_Rollback \<notin> set new"
    by blast
  have a: "resp_status r' = resp_status r"
    using ih(1) keeps(3) by simp
  have b: "is_open db' = is_open db"
    using ih(2) keeps(1) by simp
  have c: "initialized db \<longrightarrow> initialized db'"
    using ih(3) keeps(2) by blast
  show ?case
    using a b c d by (intro conjI)
qed

lemma run_commands_flag:
  assumes "run_commands env t cs db r v = Inr (db', r', v')"
  shows "v' = (v \<or> (\<exists>c \<in> set cs. cmd_type c = VACUUM))
       \<and> ((\<forall>c \<in> set cs. \<not> (cmd_type c = EXECUTE \<and> cmd_command c = ''VACUUM'')) \<longrightarrow>
            count_list (calls db') (CALL_Execute ''VACUUM'')
              = count_list (calls db) (CALL_Execute ''VACUUM''))"
  using assms
proof (induction cs arbitrary: db r v)
  case Nil
  then show ?case by simp
next
  case (Cons c cs)
  obtain s db1 r1 v1 where step: "run_command env t c db r v = (s, db1, r1, v1)"
    by (cases "run_command env t c db r v") auto
  note keeps = run_command_keeps [OF step]
  have ok: "s = RESPONSE_OK"
    using step Cons.prems by (auto split: if_splits)
  have "run_commands env t cs db1 r1 v1 = Inr (db', r', v')"
    using step ok Cons.prems by simp
  from Cons.IH [OF this] have
    ih: "v' = (v1 \<or> (\<exists>c \<in> set cs. cmd_type c = VACUUM))"
      "(\<forall>c \<in> set cs. \<not> (cmd_type c = EXECUTE \<and> cmd_command c = ''VACUUM'')) \<longrightarrow>
         count_list (calls db') (CALL_Execute ''VACUUM'')
           = count_list (calls db1) (CALL_Execute ''VACUUM'')"
    by blast+
  have a: "v' = (v \<or> (\<exists>c \<in> set (c # cs). cmd_type c = VACUUM))"
    using ih(1) keeps(5) by auto
  have b: "(\<forall>c \<in> set (c # cs). \<not> (cmd_type c = EXECUTE \<and> cmd_command c = ''VACUUM'')) \<longrightarrow>
         count_list (calls db') (CALL_Execute ''VACUUM'')
           = count_list (calls db) (CALL_Execute ''VACUUM'')"
    using ih(2) keeps(6) by auto
  show ?case using a b by (intro conjI)
qed

text \<open>What an early return leaves: it follows from the first failing command.\<close>

lemma run_commands_Inl:
  assumes "run_commands env t cs db r v = Inl (r', db')"
  shows "resp_status r' \<in> {INITIALIZATION_ERROR, COMMAND_ERROR}
       \<and> is_open db' = is_open db
       \<and> (initialized db \<longrightarrow> initialized db')
       \<and> (\<exists>new. calls db' = calls db @ new @ [CALL_Rollback]
              \<and> CALL_Close \<notin> set new \<and> CALL_Commit \<notin> set new
              \<and> CALL_Rollback \<notin> set new)
       \<and> ((\<forall>c \<in> set cs. \<not> (cmd_type c = EXECUTE \<and> cmd_command c = ''VACUUM'')) \<longrightarrow>
            count_list (calls db') (CALL_Execute ''VACUUM'')
              = count_list (calls db) (CALL_Execute ''VACUUM''))"
proof -
  from run_commands_first_failure [OF assms]
  obtain before failing later db1 r1 v1 s db2 r2 v2 where
    f: "cs = before @ failing # later"
      "run_commands env t before db r v = Inr (db1, r1, v1)"
      "run_command env t failing db1 r1 v1 = (s, db2, r2, v2)"
      "s \<noteq> RESPONSE_OK"
      "r' = r2\<lparr>resp_status := s\<rparr>" "db' = Rollback env db2"
    by blast
  note keeps = run_command_keeps [OF f(3)]
  from run_commands_Inr [OF f(2)] obtain new1 where
    p: "is_open db1 = is_open db" "initialized db \<longrightarrow> initialized db1"
      "calls db1 = calls db @ new1" "CALL_Close \<notin> set new1" "CALL_Commit \<notin> set new1"
      "CALL_Rollback \<notin> set new1"
    by blast
  obtain new2 where n2: "calls db2 = calls db1 @ new2" "CALL_Close \<notin> set new2"
      "CALL_Commit \<notin> set new2" "CALL_Rollback \<notin> set new2"
    using keeps(4) by blast
  have st: "s \<in> {RESPONSE_OK, INITIALIZATION_ERROR, COMMAND_ERROR}"
    using run_command_status [of env t failing db1 r1 v1] f(3) by simp
  have a: "resp_status r' \<in> {INITIALIZATION_ERROR, COMMAND_ERROR}"
    using st f(4,5) by auto
  have b: "is_open db' = is_open db"
    using f(6) keeps(1) p(1) by (simp add: Rollback_def called_def)
  have c: "initialized db \<longrightarrow> initialized db'"
    using f(6) keeps(2) p(2) by (simp add: Rollback_def called_def)
  have "calls db' = calls db @ (new1 @ new2) @ [CALL_Rollback]
      \<and> CALL_Close \<notin> set (new1 @ new2) \<and> CALL_Commit \<notin> set (new1 @ new2)
      \<and> CALL_Rollback \<notin> set (new1 @ new2)"
    using f(6) p n2 by (simp add: Rollback_def called_def)
  then have d: "\<exists>new. calls db' = calls db @ new @ [CALL_Rollback]
      \<and> CALL_Close \<notin> set new \<and> CALL_Commit \<notin> set new \<and> CALL_Rollback \<notin> set new"
    by blast
  have e: "(\<forall>c \<in> set cs. \<not> (cmd_type c = EXECUTE \<and> cmd_command c = ''VACUUM'')) \<longrightarrow>
            count_list (calls db') (CALL_Execute ''VACUUM'')
              = count_list (calls db) (CALL_Execute ''VACUUM'')"
  proof
    assume no: "\<forall>c \<in> set cs. \<not> (cmd_type c = EXECUTE \<and> cmd_command c = ''VACUUM'')"
    then have "\<forall>c \<in> set before. \<not> (cmd_type c = EXECUTE \<and> cmd_command c = ''VACUUM'')"
      using f(1) by simp
    then have c1: "count_list (calls db1) (CALL_Execute ''VACUUM'')
        = count_list (calls db) (CALL_Execute ''VACUUM'')"
      using run_commands_flag [OF f(2)] by blast
    have "\<not> (cmd_type failing = EXECUTE \<and> cmd_command failing = ''VACUUM'')"
      using no f(1) by simp
    then have c2: "count_list (calls db2) (CALL_Execute ''VACUUM'')
        = count_list (calls db1) (CALL_Execute ''VACUUM'')"
      using keeps(6) by blast
    show "count_list (calls db') (CALL_Execute ''VACUUM'')
        = count_list (calls db) (CALL_Execute ''VACUUM'')"
      using c1 c2 f(6) by (simp add: Rollback_def called_def)
  qed
  show ?thesis
    using a b c d e by (intro conjI)
qed

text \<open>A CLOSE command in the list makes the loop return.\<close>

lemma run_commands_with_close:
  assumes "c \<in> set cs" "cmd_type c = CLOSE"
  shows "\<exists>returned. run_commands env t cs db r v = Inl returned"
proof (cases "run_commands env t cs db r v")
  case (Inl returned)
  then show ?thesis by blast
next
  case (Inr finished)
  obtain db' r' v' where "finished = (db', r', v')" by (cases finished)
  with Inr have "run_commands env t cs db r v = Inr (db', r', v')" by simp
  from run_commands_Inr_no_close [OF this] assms show ?thesis by blast
qed

subsection \<open>The paths through \<^verbatim>\<open>RunTransaction\<close>\<close>

lemma opened_facts:
  "is_open (opened db)"
  "initialized (opened db) = initialized db"
  "memory_pressure_listener (opened db) = memory_pressure_listener db"
  "content (opened db) = content db"
  "\<exists>new. calls (opened db) = calls db @ new \<and> CALL_Close \<notin> set new
     \<and> CALL_Commit \<notin> set new \<and> CALL_Rollback \<notin> set new
     \<and> count_list new (CALL_Execute ''VACUUM'') = 0"
  by (simp_all add: opened_def called_def)

lemma begun_facts:
  "is_open (begun env db)"
  "initialized (begun env db) = initialized db"
  "memory_pressure_listener (begun env db) = memory_pressure_listener db"
  "content (begun env db) = snd (committer_Begin env (content db))"
  "calls (begun env db) = calls (opened db) @ [CALL_Begin]"
  "\<exists>new. calls (begun env db) = calls db @ new \<and> CALL_Close \<notin> set new
     \<and> CALL_Commit \<notin> set new \<and> CALL_Rollback \<notin> set new
     \<and> count_list new (CALL_Execute ''VACUUM'') = 0"
  by (simp_all add: begun_def opened_def called_def)

lemma begun_open: "is_open db \<Longrightarrow> begun env db
    = db\<lparr>content := snd (committer_Begin env (content db)), calls := calls db @ [CALL_Begin]\<rparr>"
  by (simp add: begun_def opened_def called_def)

lemma RunTransaction_open_fails:
  assumes "\<not> is_open db" "\<not> db_Open env (content db)"
  shows "RunTransaction env t db
           = (DBCommandResponse_New\<lparr>resp_status := INITIALIZATION_ERROR\<rparr>, called CALL_Open db)"
  using assms by (simp add: RunTransaction_def)

lemma RunTransaction_sole_close:
  assumes "is_open db \<or> db_Open env (content db)" "sole_close t"
  shows "RunTransaction env t db
           = (DBCommandResponse_New\<lparr>resp_status := RESPONSE_OK\<rparr>, CloseDatabase (opened db))"
  using assms by (auto simp: RunTransaction_def)

lemma RunTransaction_begin_fails:
  assumes "is_open db \<or> db_Open env (content db)" "\<not> sole_close t"
    "\<not> fst (committer_Begin env (content db))"
  shows "RunTransaction env t db
           = (DBCommandResponse_New\<lparr>resp_status := TRANSACTION_ERROR\<rparr>, begun env db)"
  using assms by (auto simp: RunTransaction_def)

lemma RunTransaction_loop:
  assumes "is_open db \<or> db_Open env (content db)" "\<not> sole_close t"
    "fst (committer_Begin env (content db))"
  shows "RunTransaction env t db =
     (case run_commands env t (tx_commands t) (begun env db) DBCommandResponse_New False of
        Inl returned \<Rightarrow> returned
      | Inr (db2, response2, vacuum_requested) \<Rightarrow>
          if \<not> fst (committer_Commit env (content db2)) then
            (response2\<lparr>resp_status := TRANSACTION_ERROR\<rparr>,
             (called CALL_Commit db2)\<lparr>content := snd (committer_Commit env (content db2))\<rparr>)
          else if vacuum_requested then
            (response2,
             (called (CALL_Execute ''VACUUM'') (called CALL_Commit db2))
               \<lparr>content := snd (db_Execute env ''VACUUM''
                   (snd (committer_Commit env (content db2))))\<rparr>)
          else (response2,
             (called CALL_Commit db2)\<lparr>content := snd (committer_Commit env (content db2))\<rparr>))"
  using assms
  by (auto simp: RunTransaction_def called_def Let_def split: sum.splits prod.splits)




text \<open>The outcome when the commands before one command succeed and that command fails.\<close>

lemma RunTransaction_failing_command:
  assumes opens: "is_open db \<or> db_Open env (content db)"
    and not_sole: "\<not> sole_close t"
    and begins: "fst (committer_Begin env (content db))"
    and split: "tx_commands t = before @ failing # later"
    and prefix: "run_commands env t before (begun env db) DBCommandResponse_New False
                   = Inr (db1, r1, v1)"
    and step: "run_command env t failing db1 r1 v1 = (s, db2, r2, v2)"
    and fails: "s \<noteq> RESPONSE_OK"
  shows "RunTransaction env t db = (r2\<lparr>resp_status := s\<rparr>, Rollback env db2)"
proof -
  have "run_commands env t (tx_commands t) (begun env db) DBCommandResponse_New False
      = Inl (r2\<lparr>resp_status := s\<rparr>, Rollback env db2)"
    using split prefix step fails by (simp add: run_commands_append)
  then show ?thesis
    by (simp add: RunTransaction_loop [OF opens not_sole begins])
qed

subsection \<open>A failing transaction\<close>




subsection \<open>The deferred vacuum\<close>

text \<open>
  Claim C6. In a transaction that contains a \<^verbatim>\<open>VACUUM\<close> command, the command itself
  only raises the flag: it makes no call on the sql library and changes neither store
  nor response. The vacuum statement runs on one path only. When the connection does not
  open or the transaction does not begin, no command runs at all. When a command fails,
  the transaction returns after the rollback, without a commit. When the commands
  succeed and the commit fails, the call log ends with the commit and the status is
  \<^verbatim>\<open>TRANSACTION_ERROR\<close>. When the commit succeeds, one \<^verbatim>\<open>Execute("VACUUM")\<close> follows
  it and nothing else; no rollback is among the calls of the transaction, and the status
  is \<^verbatim>\<open>RESPONSE_OK\<close> whatever that statement answers. Unless a caller's own
  \<^verbatim>\<open>EXECUTE\<close> command carries the text \<^verbatim>\<open>VACUUM\<close>, the vacuum statement is executed
  exactly once on the last path and not at all on the others.
\<close>

theorem vacuum_deferred_until_commit:
  assumes present: "vacuum_command \<in> set (tx_commands transaction)"
      "cmd_type vacuum_command = VACUUM"
    and outcome: "outcome = RunTransaction env transaction db"
  shows "run_command env transaction vacuum_command any_db any_response any_flag
           = (RESPONSE_OK, any_db, any_response, True)
       \<and> (\<not> is_open db \<and> \<not> db_Open env (content db) \<longrightarrow>
            resp_status (fst outcome) = INITIALIZATION_ERROR
            \<and> calls (snd outcome) = calls db @ [CALL_Open])
       \<and> ((is_open db \<or> db_Open env (content db))
            \<and> \<not> fst (committer_Begin env (content db)) \<longrightarrow>
            resp_status (fst outcome) = TRANSACTION_ERROR
            \<and> calls (snd outcome) = calls (opened db) @ [CALL_Begin])
       \<and> ((is_open db \<or> db_Open env (content db))
            \<and> fst (committer_Begin env (content db))
            \<and> run_commands env transaction (tx_commands transaction)
                 (begun env db) DBCommandResponse_New False = Inl (response1, db1) \<longrightarrow>
            outcome = (response1, db1)
            \<and> resp_status (fst outcome) \<in> {INITIALIZATION_ERROR, COMMAND_ERROR}
            \<and> last (calls (snd outcome)) = CALL_Rollback
            \<and> CALL_Commit \<notin> set (drop (length (calls db)) (calls (snd outcome)))
            \<and> ((\<forall>c \<in> set (tx_commands transaction).
                    \<not> (cmd_type c = EXECUTE \<and> cmd_command c = ''VACUUM'')) \<longrightarrow>
                 count_list (calls (snd outcome)) (CALL_Execute ''VACUUM'')
                   = count_list (calls db) (CALL_Execute ''VACUUM'')))
       \<and> ((is_open db \<or> db_Open env (content db))
            \<and> fst (committer_Begin env (content db))
            \<and> run_commands env transaction (tx_commands transaction)
                 (begun env db) DBCommandResponse_New False = Inr (db2, response2, flag) \<longrightarrow>
            flag
            \<and> (\<not> fst (committer_Commit env (content db2)) \<longrightarrow>
                 resp_status (fst outcome) = TRANSACTION_ERROR
                 \<and> calls (snd outcome) = calls db2 @ [CALL_Commit]
                 \<and> ((\<forall>c \<in> set (tx_commands transaction).
                         \<not> (cmd_type c = EXECUTE \<and> cmd_command c = ''VACUUM'')) \<longrightarrow>
                      count_list (calls (snd outcome)) (CALL_Execute ''VACUUM'')
                        = count_list (calls db) (CALL_Execute ''VACUUM'')))
            \<and> (fst (committer_Commit env (content db2)) \<longrightarrow>
                 outcome = (response2,
                   (called (CALL_Execute ''VACUUM'') (called CALL_Commit db2))
                     \<lparr>content := snd (db_Execute env ''VACUUM''
                         (snd (committer_Commit env (content db2))))\<rparr>)
                 \<and> calls (snd outcome) = calls db2 @ [CALL_Commit, CALL_Execute ''VACUUM'']
                 \<and> CALL_Rollback \<notin> set (drop (length (calls db)) (calls (snd outcome)))
                 \<and> resp_status (fst outcome) = RESPONSE_OK
                 \<and> ((\<forall>c \<in> set (tx_commands transaction).
                         \<not> (cmd_type c = EXECUTE \<and> cmd_command c = ''VACUUM'')) \<longrightarrow>
                      count_list (calls (snd outcome)) (CALL_Execute ''VACUUM'')
                        = count_list (calls db) (CALL_Execute ''VACUUM'') + 1)))"
proof -
  have not_sole: "\<not> sole_close transaction"
  proof
    assume "sole_close transaction"
    then obtain c where "tx_commands transaction = [c]" "cmd_type c = CLOSE"
      by (cases "tx_commands transaction") (auto simp: sole_close_def)
    with present show False by auto
  qed
  obtain pre where pre: "calls (begun env db) = calls db @ pre"
      "CALL_Commit \<notin> set pre" "CALL_Rollback \<notin> set pre"
      "count_list pre (CALL_Execute ''VACUUM'') = 0"
    using begun_facts(6) [of env db] by blast
  have at_command: "run_command env transaction vacuum_command any_db any_response any_flag
           = (RESPONSE_OK, any_db, any_response, True)"
    using present(2) by (simp add: run_command_def)
  have no_open: "\<not> is_open db \<and> \<not> db_Open env (content db) \<longrightarrow>
            resp_status (fst outcome) = INITIALIZATION_ERROR
            \<and> calls (snd outcome) = calls db @ [CALL_Open]"
    using outcome by (simp add: RunTransaction_open_fails called_def)
  have no_begin: "(is_open db \<or> db_Open env (content db))
            \<and> \<not> fst (committer_Begin env (content db)) \<longrightarrow>
            resp_status (fst outcome) = TRANSACTION_ERROR
            \<and> calls (snd outcome) = calls (opened db) @ [CALL_Begin]"
    using outcome not_sole by (simp add: RunTransaction_begin_fails begun_facts)
  have failing: "(is_open db \<or> db_Open env (content db))
            \<and> fst (committer_Begin env (content db))
            \<and> run_commands env transaction (tx_commands transaction)
                 (begun env db) DBCommandResponse_New False = Inl (response1, db1) \<longrightarrow>
            outcome = (response1, db1)
            \<and> resp_status (fst outcome) \<in> {INITIALIZATION_ERROR, COMMAND_ERROR}
            \<and> last (calls (snd outcome)) = CALL_Rollback
            \<and> CALL_Commit \<notin> set (drop (length (calls db)) (calls (snd outcome)))
            \<and> ((\<forall>c \<in> set (tx_commands transaction).
                    \<not> (cmd_type c = EXECUTE \<and> cmd_command c = ''VACUUM'')) \<longrightarrow>
                 count_list (calls (snd outcome)) (CALL_Execute ''VACUUM'')
                   = count_list (calls db) (CALL_Execute ''VACUUM''))"
  proof
    assume a: "(is_open db \<or> db_Open env (content db))
            \<and> fst (committer_Begin env (content db))
            \<and> run_commands env transaction (tx_commands transaction)
                 (begun env db) DBCommandResponse_New False = Inl (response1, db1)"
    then have loop: "run_commands env transaction (tx_commands transaction)
                 (begun env db) DBCommandResponse_New False = Inl (response1, db1)"
      by simp
    have eq: "outcome = (response1, db1)"
      using a outcome not_sole by (simp add: RunTransaction_loop)
    from run_commands_Inl [OF loop] obtain new where
      facts: "resp_status response1 \<in> {INITIALIZATION_ERROR, COMMAND_ERROR}"
        "calls db1 = calls (begun env db) @ new @ [CALL_Rollback]"
        "CALL_Commit \<notin> set new"
        "(\<forall>c \<in> set (tx_commands transaction).
              \<not> (cmd_type c = EXECUTE \<and> cmd_command c = ''VACUUM'')) \<longrightarrow>
            count_list (calls db1) (CALL_Execute ''VACUUM'')
              = count_list (calls (begun env db)) (CALL_Execute ''VACUUM'')"
      by blast
    have whole: "calls db1 = calls db @ (pre @ new @ [CALL_Rollback])"
      using facts(2) pre(1) by simp
    then have dropped: "drop (length (calls db)) (calls db1) = pre @ new @ [CALL_Rollback]"
      by simp
    have c0: "count_list (calls (begun env db)) (CALL_Execute ''VACUUM'')
        = count_list (calls db) (CALL_Execute ''VACUUM'')"
      using pre(1,4) by simp
    show "outcome = (response1, db1)
            \<and> resp_status (fst outcome) \<in> {INITIALIZATION_ERROR, COMMAND_ERROR}
            \<and> last (calls (snd outcome)) = CALL_Rollback
            \<and> CALL_Commit \<notin> set (drop (length (calls db)) (calls (snd outcome)))
            \<and> ((\<forall>c \<in> set (tx_commands transaction).
                    \<not> (cmd_type c = EXECUTE \<and> cmd_command c = ''VACUUM'')) \<longrightarrow>
                 count_list (calls (snd outcome)) (CALL_Execute ''VACUUM'')
                   = count_list (calls db) (CALL_Execute ''VACUUM''))"
      using eq facts(1,3,4) whole dropped pre(2) c0 by (intro conjI) simp_all
  qed
  have finishing: "(is_open db \<or> db_Open env (content db))
            \<and> fst (committer_Begin env (content db))
            \<and> run_commands env transaction (tx_commands transaction)
                 (begun env db) DBCommandResponse_New False = Inr (db2, response2, flag) \<longrightarrow>
            flag
            \<and> (\<not> fst (committer_Commit env (content db2)) \<longrightarrow>
                 resp_status (fst outcome) = TRANSACTION_ERROR
                 \<and> calls (snd outcome) = calls db2 @ [CALL_Commit]
                 \<and> ((\<forall>c \<in> set (tx_commands transaction).
                         \<not> (cmd_type c = EXECUTE \<and> cmd_command c = ''VACUUM'')) \<longrightarrow>
                      count_list (calls (snd outcome)) (CALL_Execute ''VACUUM'')
                        = count_list (calls db) (CALL_Execute ''VACUUM'')))
            \<and> (fst (committer_Commit env (content db2)) \<longrightarrow>
                 outcome = (response2,
                   (called (CALL_Execute ''VACUUM'') (called CALL_Commit db2))
                     \<lparr>content := snd (db_Execute env ''VACUUM''
                         (snd (committer_Commit env (content db2))))\<rparr>)
                 \<and> calls (snd outcome) = calls db2 @ [CALL_Commit, CALL_Execute ''VACUUM'']
                 \<and> CALL_Rollback \<notin> set (drop (length (calls db)) (calls (snd outcome)))
                 \<and> resp_status (fst outcome) = RESPONSE_OK
                 \<and> ((\<forall>c \<in> set (tx_commands transaction).
                         \<not> (cmd_type c = EXECUTE \<and> cmd_command c = ''VACUUM'')) \<longrightarrow>
                      count_list (calls (snd outcome)) (CALL_Execute ''VACUUM'')
                        = count_list (calls db) (CALL_Execute ''VACUUM'') + 1))"
  proof
    assume a: "(is_open db \<or> db_Open env (content db))
            \<and> fst (committer_Begin env (content db))
            \<and> run_commands env transaction (tx_commands transaction)
                 (begun env db) DBCommandResponse_New False = Inr (db2, response2, flag)"
    then have loop: "run_commands env transaction (tx_commands transaction)
                 (begun env db) DBCommandResponse_New False = Inr (db2, response2, flag)"
      by simp
    have flag: flag
      using run_commands_flag [OF loop] present by blast
    have status2: "resp_status response2 = RESPONSE_OK"
      using run_commands_Inr [OF loop] by (simp add: DBCommandResponse_New_def)
    obtain new where new: "calls db2 = calls (begun env db) @ new"
        "CALL_Rollback \<notin> set new"
      using run_commands_Inr [OF loop] by blast
    have vac0: "count_list (calls (begun env db)) (CALL_Execute ''VACUUM'')
        = count_list (calls db) (CALL_Execute ''VACUUM'')"
      using pre(1,4) by simp
    have kept: "(\<forall>c \<in> set (tx_commands transaction).
                    \<not> (cmd_type c = EXECUTE \<and> cmd_command c = ''VACUUM'')) \<longrightarrow>
                 count_list (calls db2) (CALL_Execute ''VACUUM'')
                   = count_list (calls db) (CALL_Execute ''VACUUM'')"
      using run_commands_flag [OF loop] vac0 by simp
    have run: "RunTransaction env transaction db =
        (if \<not> fst (committer_Commit env (content db2)) then
           (response2\<lparr>resp_status := TRANSACTION_ERROR\<rparr>,
            (called CALL_Commit db2)\<lparr>content := snd (committer_Commit env (content db2))\<rparr>)
         else
           (response2,
            (called (CALL_Execute ''VACUUM'') (called CALL_Commit db2))
              \<lparr>content := snd (db_Execute env ''VACUUM''
                  (snd (committer_Commit env (content db2))))\<rparr>))"
      using a loop flag not_sole by (simp add: RunTransaction_loop)
    have fails: "\<not> fst (committer_Commit env (content db2)) \<longrightarrow>
                 resp_status (fst outcome) = TRANSACTION_ERROR
                 \<and> calls (snd outcome) = calls db2 @ [CALL_Commit]
                 \<and> ((\<forall>c \<in> set (tx_commands transaction).
                         \<not> (cmd_type c = EXECUTE \<and> cmd_command c = ''VACUUM'')) \<longrightarrow>
                      count_list (calls (snd outcome)) (CALL_Execute ''VACUUM'')
                        = count_list (calls db) (CALL_Execute ''VACUUM''))"
      using run outcome kept by (simp add: called_def)
    have commits: "fst (committer_Commit env (content db2)) \<longrightarrow>
                 outcome = (response2,
                   (called (CALL_Execute ''VACUUM'') (called CALL_Commit db2))
                     \<lparr>content := snd (db_Execute env ''VACUUM''
                         (snd (committer_Commit env (content db2))))\<rparr>)
                 \<and> calls (snd outcome) = calls db2 @ [CALL_Commit, CALL_Execute ''VACUUM'']
                 \<and> CALL_Rollback \<notin> set (drop (length (calls db)) (calls (snd outcome)))
                 \<and> resp_status (fst outcome) = RESPONSE_OK
                 \<and> ((\<forall>c \<in> set (tx_commands transaction).
                         \<not> (cmd_type c = EXECUTE \<and> cmd_command c = ''VACUUM'')) \<longrightarrow>
                      count_list (calls (snd outcome)) (CALL_Execute ''VACUUM'')
                        = count_list (calls db) (CALL_Execute ''VACUUM'') + 1)"
    proof
      assume c: "fst (committer_Commit env (content db2))"
      have eq: "outcome = (response2,
                   (called (CALL_Execute ''VACUUM'') (called CALL_Commit db2))
                     \<lparr>content := snd (db_Execute env ''VACUUM''
                         (snd (committer_Commit env (content db2))))\<rparr>)"
        using run outcome c by simp
      have cs: "calls (snd outcome) = calls db2 @ [CALL_Commit, CALL_Execute ''VACUUM'']"
        using eq by (simp add: called_def)
      have "calls (snd outcome)
          = calls db @ (pre @ new @ [CALL_Commit, CALL_Execute ''VACUUM''])"
        using cs new(1) pre(1) by simp
      then have "drop (length (calls db)) (calls (snd outcome))
          = pre @ new @ [CALL_Commit, CALL_Execute ''VACUUM'']"
        by simp
      then have no_rollback:
        "CALL_Rollback \<notin> set (drop (length (calls db)) (calls (snd outcome)))"
        using new(2) pre(3) by simp
      have once: "(\<forall>c \<in> set (tx_commands transaction).
                      \<not> (cmd_type c = EXECUTE \<and> cmd_command c = ''VACUUM'')) \<longrightarrow>
                   count_list (calls (snd outcome)) (CALL_Execute ''VACUUM'')
                     = count_list (calls db) (CALL_Execute ''VACUUM'') + 1"
        using kept cs by simp
      show "outcome = (response2,
                   (called (CALL_Execute ''VACUUM'') (called CALL_Commit db2))
                     \<lparr>content := snd (db_Execute env ''VACUUM''
                         (snd (committer_Commit env (content db2))))\<rparr>)
                 \<and> calls (snd outcome) = calls db2 @ [CALL_Commit, CALL_Execute ''VACUUM'']
                 \<and> CALL_Rollback \<notin> set (drop (length (calls db)) (calls (snd outcome)))
                 \<and> resp_status (fst outcome) = RESPONSE_OK
                 \<and> ((\<forall>c \<in> set (tx_commands transaction).
                         \<not> (cmd_type c = EXECUTE \<and> cmd_command c = ''VACUUM'')) \<longrightarrow>
                      count_list (calls (snd outcome)) (CALL_Execute ''VACUUM'')
                        = count_list (calls db) (CALL_Execute ''VACUUM'') + 1)"
        using eq cs no_rollback once status2 by (intro conjI) simp_all
    qed
    show "flag
            \<and> (\<not> fst (committer_Commit env (content db2)) \<longrightarrow>
                 resp_status (fst outcome) = TRANSACTION_ERROR
                 \<and> calls (snd outcome) = calls db2 @ [CALL_Commit]
                 \<and> ((\<forall>c \<in> set (tx_commands transaction).
                         \<not> (cmd_type c = EXECUTE \<and> cmd_command c = ''VACUUM'')) \<longrightarrow>
                      count_list (calls (snd outcome)) (CALL_Execute ''VACUUM'')
                        = count_list (calls db) (CALL_Execute ''VACUUM'')))
            \<and> (fst (committer_Commit env (content db2)) \<longrightarrow>
                 outcome = (response2,
                   (called (CALL_Execute ''VACUUM'') (called CALL_Commit db2))
                     \<lparr>content := snd (db_Execute env ''VACUUM''
                         (snd (committer_Commit env (content db2))))\<rparr>)
                 \<and> calls (snd outcome) = calls db2 @ [CALL_Commit, CALL_Execute ''VACUUM'']
                 \<and> CALL_Rollback \<notin> set (drop (length (calls db)) (calls (snd outcome)))
                 \<and> resp_status (fst outcome) = RESPONSE_OK
                 \<and> ((\<forall>c \<in> set (tx_commands transaction).
                         \<not> (cmd_type c = EXECUTE \<and> cmd_command c = ''VACUUM'')) \<longrightarrow>
                      count_list (calls (snd outcome)) (CALL_Execute ''VACUUM'')
                        = count_list (calls db) (CALL_Execute ''VACUUM'') + 1))"
      using flag fails commits by (intro conjI)
  qed
  show ?thesis
    using at_command no_open no_begin failing finishing by (intro conjI)
qed

theorem vacuum_deferred_until_commit_witness:
  "\<not> fst (db_Execute demo_sql ''VACUUM'' (file_of (Some (5, 5)) [''a'', ''b'']))
   \<and> RunTransaction demo_sql (tx 5 [cmd RUN ''b'', cmd VACUUM [], cmd READ ''q'']) ready_store
     = (\<lparr>resp_status = RESPONSE_OK, resp_result = Some (Records_result [[], []])\<rparr>,
        ready_store\<lparr>content := file_of (Some (5, 5)) [''a'', ''b''],
          calls := [CALL_Begin, CALL_Run \<lparr>stmt_sql = ''b'', stmt_bound = []\<rparr>,
            CALL_Step \<lparr>stmt_sql = ''q'', stmt_bound = []\<rparr>, CALL_Commit,
            CALL_Execute ''VACUUM'']\<rparr>)
   \<and> count_list (calls (snd (RunTransaction demo_sql
          (tx 5 [cmd RUN ''b'', cmd VACUUM [], cmd READ ''q'']) ready_store)))
        (CALL_Execute ''VACUUM'') = 1
   \<and> RunTransaction demo_sql (tx 5 [cmd VACUUM [], cmd RUN ''bad'']) ready_store
     = (\<lparr>resp_status = COMMAND_ERROR, resp_result = None\<rparr>,
        ready_store\<lparr>calls := [CALL_Begin, CALL_Run \<lparr>stmt_sql = ''bad'', stmt_bound = []\<rparr>,
            CALL_Rollback]\<rparr>)
   \<and> count_list (calls (snd (RunTransaction demo_sql
          (tx 5 [cmd VACUUM [], cmd RUN ''bad'']) ready_store)))
        (CALL_Execute ''VACUUM'') = 0"
  using vacuum_deferred_until_commit [where
      vacuum_command = "cmd VACUUM []"
      and transaction = "tx 5 [cmd RUN ''b'', cmd VACUUM [], cmd READ ''q'']"
      and outcome = "RunTransaction demo_sql
        (tx 5 [cmd RUN ''b'', cmd VACUUM [], cmd READ ''q'']) ready_store"
      and env = demo_sql and db = ready_store
      and ?db2.0 = "ready_store\<lparr>content := \<lparr>db_meta = Some (5, 5), db_tables =
           \<lparr>rows = [''a'', ''b''], journal = Some (Some (5, 5), [''a''])\<rparr>\<rparr>,
          calls := [CALL_Begin, CALL_Run \<lparr>stmt_sql = ''b'', stmt_bound = []\<rparr>,
            CALL_Step \<lparr>stmt_sql = ''q'', stmt_bound = []\<rparr>]\<rparr>"
      and ?response2.0 = "\<lparr>resp_status = RESPONSE_OK,
          resp_result = Some (Records_result [[], []])\<rparr>"
      and flag = True]
    vacuum_deferred_until_commit [where
      vacuum_command = "cmd VACUUM []"
      and transaction = "tx 5 [cmd VACUUM [], cmd RUN ''bad'']"
      and outcome = "RunTransaction demo_sql (tx 5 [cmd VACUUM [], cmd RUN ''bad'']) ready_store"
      and env = demo_sql and db = ready_store
      and ?response1.0 = "\<lparr>resp_status = COMMAND_ERROR, resp_result = None\<rparr>"
      and ?db1.0 = "ready_store\<lparr>calls :=
          [CALL_Begin, CALL_Run \<lparr>stmt_sql = ''bad'', stmt_bound = []\<rparr>, CALL_Rollback]\<rparr>"]
  by (simp add: store_defs demo_defs)

subsection \<open>Commands on a store that is not initialized\<close>

text \<open>
  Claim C7, as amended. While \<^verbatim>\<open>initialized_\<close> is unset, a command of type
  \<^verbatim>\<open>READ\<close>, \<^verbatim>\<open>EXECUTE\<close>, \<^verbatim>\<open>RUN\<close> or \<^verbatim>\<open>MIGRATE\<close> evaluates to
  \<^verbatim>\<open>INITIALIZATION_ERROR\<close> and leaves the store, the call log included, the response and
  the vacuum flag as they were: no call reaches the sql library. A \<^verbatim>\<open>VACUUM\<close> command
  evaluates to \<^verbatim>\<open>RESPONSE_OK\<close> all the same, so the command types that can succeed in
  the loop on such a store are \<^verbatim>\<open>INITIALIZE\<close> and \<^verbatim>\<open>VACUUM\<close>.
\<close>

theorem uninitialized_commands:
  assumes "\<not> initialized db"
  shows "(cmd_type command \<in> {READ, EXECUTE, RUN, MIGRATE} \<longrightarrow>
            run_command env transaction command db response vacuum
              = (INITIALIZATION_ERROR, db, response, vacuum))
       \<and> (cmd_type command = VACUUM \<longrightarrow>
            run_command env transaction command db response vacuum
              = (RESPONSE_OK, db, response, True))
       \<and> (fst (run_command env transaction command db response vacuum) = RESPONSE_OK \<longrightarrow>
            cmd_type command \<in> {INITIALIZE, VACUUM})"
  using assms
  by (cases "cmd_type command")
     (auto simp: run_command_def Read_def Execute_def Run_def Migrate_def split: prod.splits)

theorem uninitialized_commands_witness:
  "\<not> initialized fresh_store
   \<and> cmd_type (cmd EXECUTE ''a'') \<in> {READ, EXECUTE, RUN, MIGRATE}
   \<and> run_command demo_sql (tx 1 []) (cmd EXECUTE ''a'') fresh_store DBCommandResponse_New False
       = (INITIALIZATION_ERROR, fresh_store, DBCommandResponse_New, False)"
proof -
  have h: "\<not> initialized fresh_store"
    by (simp add: fresh_store_def)
  show ?thesis
    using h uninitialized_commands [OF h, of "cmd EXECUTE ''a''" demo_sql "tx 1 []"
        DBCommandResponse_New False]
    by (simp add: cmd_def)
qed

text \<open>
  The claim as it was written fails: on the store that was never initialized, the
  transaction made of one \<^verbatim>\<open>VACUUM\<close> command, a type other than \<^verbatim>\<open>INITIALIZE\<close> and
  \<^verbatim>\<open>CLOSE\<close>, succeeds.
\<close>

theorem vacuum_on_uninitialized_store_counterexample:
  "\<not> initialized fresh_store
   \<and> cmd_type (cmd VACUUM []) \<notin> {INITIALIZE, CLOSE}
   \<and> fst (run_command demo_sql (tx 1 [cmd VACUUM []]) (cmd VACUUM []) fresh_store
            DBCommandResponse_New False) = RESPONSE_OK
   \<and> resp_status (fst (RunTransaction demo_sql (tx 1 [cmd VACUUM []]) fresh_store))
       = RESPONSE_OK"
  by (simp add: store_defs demo_defs)

lemma RunTransaction_keeps_open:
  assumes opens: "is_open db \<or> db_Open env (content db)"
    and not_sole: "\<not> sole_close t"
  shows "is_open (snd (RunTransaction env t db))
       \<and> (initialized db \<longrightarrow> initialized (snd (RunTransaction env t db)))
       \<and> (\<exists>new. calls (snd (RunTransaction env t db)) = calls db @ new
              \<and> CALL_Close \<notin> set new)"
proof (cases "fst (committer_Begin env (content db))")
  case False
  have "RunTransaction env t db
      = (DBCommandResponse_New\<lparr>resp_status := TRANSACTION_ERROR\<rparr>, begun env db)"
    using opens not_sole False by (rule RunTransaction_begin_fails)
  moreover obtain pre where "calls (begun env db) = calls db @ pre" "CALL_Close \<notin> set pre"
    using begun_facts(6) [of env db] by blast
  ultimately show ?thesis
    using begun_facts(1,2) [of env db] by simp
next
  case True
  note run = RunTransaction_loop [OF opens not_sole True]
  obtain pre where pre: "calls (begun env db) = calls db @ pre"
      "CALL_Close \<notin> set pre"
    using begun_facts(6) [of env db] by blast
  note start = begun_facts(1,2) [of env db]
  show ?thesis
  proof (cases "run_commands env t (tx_commands t) (begun env db) DBCommandResponse_New False")
    case (Inl returned)
    obtain r' db' where ret: "returned = (r', db')" by (cases returned)
    from run_commands_Inl [OF Inl [unfolded ret]] obtain new where
      facts: "is_open db' = is_open (begun env db)"
        "initialized (begun env db) \<longrightarrow> initialized db'"
        "calls db' = calls (begun env db) @ new @ [CALL_Rollback]"
        "CALL_Close \<notin> set new"
      by blast
    have eq: "snd (RunTransaction env t db) = db'"
      using run Inl ret by simp
    have "calls db' = calls db @ (pre @ new @ [CALL_Rollback])
        \<and> CALL_Close \<notin> set (pre @ new @ [CALL_Rollback])"
      using facts pre by simp
    then have "\<exists>new. calls db' = calls db @ new \<and> CALL_Close \<notin> set new"
      by blast
    then show ?thesis
      using eq facts start by simp
  next
    case (Inr finished)
    obtain db2 r2 v2 where fin: "finished = (db2, r2, v2)" by (cases finished)
    from run_commands_Inr [OF Inr [unfolded fin]] obtain new where
      facts: "is_open db2 = is_open (begun env db)"
        "initialized (begun env db) \<longrightarrow> initialized db2"
        "calls db2 = calls (begun env db) @ new"
        "CALL_Close \<notin> set new"
      by blast
    have shape: "is_open (snd (RunTransaction env t db)) = is_open db2
        \<and> initialized (snd (RunTransaction env t db)) = initialized db2
        \<and> (\<exists>post. calls (snd (RunTransaction env t db)) = calls db2 @ post
               \<and> CALL_Close \<notin> set post)"
      using run Inr fin by (simp add: called_def)
    then obtain post where post: "calls (snd (RunTransaction env t db)) = calls db2 @ post"
        "CALL_Close \<notin> set post"
      by blast
    have "calls (snd (RunTransaction env t db)) = calls db @ (pre @ new @ post)
        \<and> CALL_Close \<notin> set (pre @ new @ post)"
      using post facts pre by simp
    then have "\<exists>new. calls (snd (RunTransaction env t db)) = calls db @ new
        \<and> CALL_Close \<notin> set new"
      by blast
    then show ?thesis
      using shape facts start by simp
  qed
qed

subsection \<open>\<^verbatim>\<open>CLOSE\<close> among other commands\<close>

text \<open>
  Claim C10, as amended. Let the connection be open or open successfully. A transaction
  that contains a \<^verbatim>\<open>CLOSE\<close> command and is not of length one, and that begins, returns
  at a first failing command: the commands before it succeeded and none of them is a
  \<^verbatim>\<open>CLOSE\<close>; the status returned is the status of that command, which is
  \<^verbatim>\<open>COMMAND_ERROR\<close> when the command is the \<^verbatim>\<open>CLOSE\<close> (that is, when the commands
  before the \<^verbatim>\<open>CLOSE\<close> all succeed) and \<^verbatim>\<open>INITIALIZATION_ERROR\<close> or
  \<^verbatim>\<open>COMMAND_ERROR\<close> otherwise; the rollback is the last call, and the database is what the
  library's rollback makes of it. A transaction made of one \<^verbatim>\<open>CLOSE\<close> returns
  \<^verbatim>\<open>RESPONSE_OK\<close>, closes the connection and resets \<^verbatim>\<open>initialized_\<close>. Every other
  transaction leaves the connection open, never calls \<^verbatim>\<open>Close\<close> and never resets
  \<^verbatim>\<open>initialized_\<close> (a successful \<^verbatim>\<open>INITIALIZE\<close> before the failure still sets it).
\<close>

theorem close_among_other_commands:
  assumes opens: "is_open db \<or> db_Open env (content db)"
    and outcome: "outcome = RunTransaction env transaction db"
  shows "(close_command \<in> set (tx_commands transaction) \<and> cmd_type close_command = CLOSE
            \<and> length (tx_commands transaction) \<noteq> 1
            \<and> fst (committer_Begin env (content db)) \<longrightarrow>
            (\<exists>earlier failing after db1 response1 vacuum1 status db2 response2 vacuum2.
                tx_commands transaction = earlier @ failing # after
              \<and> (\<forall>c \<in> set earlier. cmd_type c \<noteq> CLOSE)
              \<and> run_commands env transaction earlier (begun env db) DBCommandResponse_New False
                  = Inr (db1, response1, vacuum1)
              \<and> run_command env transaction failing db1 response1 vacuum1
                  = (status, db2, response2, vacuum2)
              \<and> status \<in> {INITIALIZATION_ERROR, COMMAND_ERROR}
              \<and> (cmd_type failing = CLOSE \<longrightarrow> status = COMMAND_ERROR \<and> db2 = db1)
              \<and> outcome = (response2\<lparr>resp_status := status\<rparr>, Rollback env db2)
              \<and> resp_status (fst outcome) = status
              \<and> content (snd outcome) = committer_Rollback env (content db2))
            \<and> last (calls (snd outcome)) = CALL_Rollback
            \<and> (tx_commands transaction = before @ close_command # later
                \<and> run_commands env transaction before (begun env db) DBCommandResponse_New False
                     = Inr (reached, response, flag)
                \<longrightarrow> outcome = (response\<lparr>resp_status := COMMAND_ERROR\<rparr>, Rollback env reached)))
       \<and> (sole_close transaction \<longrightarrow>
            resp_status (fst outcome) = RESPONSE_OK
            \<and> \<not> is_open (snd outcome) \<and> \<not> initialized (snd outcome)
            \<and> calls (snd outcome) = calls (opened db) @ [CALL_Close, CALL_MetaReset])
       \<and> (\<not> sole_close transaction \<longrightarrow>
            is_open (snd outcome)
            \<and> (initialized db \<longrightarrow> initialized (snd outcome))
            \<and> CALL_Close \<notin> set (drop (length (calls db)) (calls (snd outcome))))"
proof (intro conjI impI)
  assume a: "close_command \<in> set (tx_commands transaction) \<and> cmd_type close_command = CLOSE
            \<and> length (tx_commands transaction) \<noteq> 1
            \<and> fst (committer_Begin env (content db))"
  then have not_sole: "\<not> sole_close transaction"
    by (simp add: sole_close_def)
  have begins: "fst (committer_Begin env (content db))"
    using a by simp
  from a obtain returned where
    "run_commands env transaction (tx_commands transaction)
       (begun env db) DBCommandResponse_New False = Inl returned"
    using run_commands_with_close [of close_command "tx_commands transaction"] by blast
  moreover obtain r' db' where ret: "returned = (r', db')" by (cases returned)
  ultimately have loop: "run_commands env transaction (tx_commands transaction)
       (begun env db) DBCommandResponse_New False = Inl (r', db')"
    by simp
  have eq: "outcome = (r', db')"
    using loop outcome by (simp add: RunTransaction_loop [OF opens not_sole begins])
  from run_commands_first_failure [OF loop]
  obtain earlier failing after db1 response1 vacuum1 status db2 response2 vacuum2 where
    f: "tx_commands transaction = earlier @ failing # after"
      "run_commands env transaction earlier (begun env db) DBCommandResponse_New False
         = Inr (db1, response1, vacuum1)"
      "run_command env transaction failing db1 response1 vacuum1
         = (status, db2, response2, vacuum2)"
      "status \<noteq> RESPONSE_OK"
      "r' = response2\<lparr>resp_status := status\<rparr>" "db' = Rollback env db2"
    by blast
  have none: "\<forall>c \<in> set earlier. cmd_type c \<noteq> CLOSE"
    using run_commands_Inr_no_close [OF f(2)] .
  have st: "status \<in> {INITIALIZATION_ERROR, COMMAND_ERROR}"
    using f(3,4) run_command_status [of env transaction failing db1 response1 vacuum1] by auto
  have at_close: "cmd_type failing = CLOSE \<longrightarrow> status = COMMAND_ERROR \<and> db2 = db1"
    using f(3) by (auto simp: run_command_close)
  have "tx_commands transaction = earlier @ failing # after
      \<and> (\<forall>c \<in> set earlier. cmd_type c \<noteq> CLOSE)
      \<and> run_commands env transaction earlier (begun env db) DBCommandResponse_New False
          = Inr (db1, response1, vacuum1)
      \<and> run_command env transaction failing db1 response1 vacuum1
          = (status, db2, response2, vacuum2)
      \<and> status \<in> {INITIALIZATION_ERROR, COMMAND_ERROR}
      \<and> (cmd_type failing = CLOSE \<longrightarrow> status = COMMAND_ERROR \<and> db2 = db1)
      \<and> outcome = (response2\<lparr>resp_status := status\<rparr>, Rollback env db2)
      \<and> resp_status (fst outcome) = status
      \<and> content (snd outcome) = committer_Rollback env (content db2)"
    using f none st at_close eq by (simp add: Rollback_def called_def)
  then show "\<exists>earlier failing after db1 response1 vacuum1 status db2 response2 vacuum2.
                tx_commands transaction = earlier @ failing # after
              \<and> (\<forall>c \<in> set earlier. cmd_type c \<noteq> CLOSE)
              \<and> run_commands env transaction earlier (begun env db) DBCommandResponse_New False
                  = Inr (db1, response1, vacuum1)
              \<and> run_command env transaction failing db1 response1 vacuum1
                  = (status, db2, response2, vacuum2)
              \<and> status \<in> {INITIALIZATION_ERROR, COMMAND_ERROR}
              \<and> (cmd_type failing = CLOSE \<longrightarrow> status = COMMAND_ERROR \<and> db2 = db1)
              \<and> outcome = (response2\<lparr>resp_status := status\<rparr>, Rollback env db2)
              \<and> resp_status (fst outcome) = status
              \<and> content (snd outcome) = committer_Rollback env (content db2)"
    by blast
  show "last (calls (snd outcome)) = CALL_Rollback"
    using eq f(6) by (simp add: Rollback_def called_def)
  assume b: "tx_commands transaction = before @ close_command # later
                \<and> run_commands env transaction before (begun env db) DBCommandResponse_New False
                     = Inr (reached, response, flag)"
  have b1: "tx_commands transaction = before @ close_command # later"
    and b2: "run_commands env transaction before (begun env db) DBCommandResponse_New False
                     = Inr (reached, response, flag)"
    using b by simp_all
  have b3: "run_command env transaction close_command reached response flag
      = (COMMAND_ERROR, reached, response, flag)"
    using a by (simp add: run_command_close)
  have "RunTransaction env transaction db
      = (response\<lparr>resp_status := COMMAND_ERROR\<rparr>, Rollback env reached)"
    by (rule RunTransaction_failing_command [OF opens not_sole begins b1 b2 b3]) simp
  then show "outcome = (response\<lparr>resp_status := COMMAND_ERROR\<rparr>, Rollback env reached)"
    using outcome by simp
next
  assume sole: "sole_close transaction"
  have eq: "outcome = (DBCommandResponse_New\<lparr>resp_status := RESPONSE_OK\<rparr>,
      CloseDatabase (opened db))"
    using outcome RunTransaction_sole_close [OF opens sole] by simp
  show "resp_status (fst outcome) = RESPONSE_OK"
    using eq by simp
  show "\<not> is_open (snd outcome)"
    using eq by (simp add: CloseDatabase_def called_def)
  show "\<not> initialized (snd outcome)"
    using eq by (simp add: CloseDatabase_def called_def)
  show "calls (snd outcome) = calls (opened db) @ [CALL_Close, CALL_MetaReset]"
    using eq by (simp add: CloseDatabase_def called_def)
next
  assume not_sole: "\<not> sole_close transaction"
  from RunTransaction_keeps_open [OF opens not_sole] obtain new where
    facts: "is_open (snd (RunTransaction env transaction db))"
      "initialized db \<longrightarrow> initialized (snd (RunTransaction env transaction db))"
      "calls (snd (RunTransaction env transaction db)) = calls db @ new"
      "CALL_Close \<notin> set new"
    by blast
  show "is_open (snd outcome)"
    using facts(1) outcome by simp
  show "CALL_Close \<notin> set (drop (length (calls db)) (calls (snd outcome)))"
    using facts(3,4) outcome by simp
  assume "initialized db"
  then show "initialized (snd outcome)"
    using facts(2) outcome by simp
qed

theorem close_among_other_commands_witness:
  "RunTransaction demo_sql (tx 5 [cmd RUN ''b'', cmd CLOSE [], cmd RUN ''c'']) ready_store
     = (\<lparr>resp_status = COMMAND_ERROR, resp_result = None\<rparr>,
        ready_store\<lparr>calls := [CALL_Begin, CALL_Run \<lparr>stmt_sql = ''b'', stmt_bound = []\<rparr>,
           CALL_Rollback]\<rparr>)
   \<and> is_open (snd (RunTransaction demo_sql
        (tx 5 [cmd RUN ''b'', cmd CLOSE [], cmd RUN ''c'']) ready_store))
   \<and> initialized (snd (RunTransaction demo_sql
        (tx 5 [cmd RUN ''b'', cmd CLOSE [], cmd RUN ''c'']) ready_store))"
  using close_among_other_commands [where
      db = ready_store and env = demo_sql
      and outcome = "RunTransaction demo_sql
        (tx 5 [cmd RUN ''b'', cmd CLOSE [], cmd RUN ''c'']) ready_store"
      and transaction = "tx 5 [cmd RUN ''b'', cmd CLOSE [], cmd RUN ''c'']"
      and close_command = "cmd CLOSE []"
      and before = "[cmd RUN ''b'']" and later = "[cmd RUN ''c'']"
      and reached = "ready_store\<lparr>content := \<lparr>db_meta = Some (5, 5), db_tables =
           \<lparr>rows = [''a'', ''b''], journal = Some (Some (5, 5), [''a''])\<rparr>\<rparr>,
         calls := [CALL_Begin, CALL_Run \<lparr>stmt_sql = ''b'', stmt_bound = []\<rparr>]\<rparr>"
      and response = DBCommandResponse_New and flag = False]
  by (simp add: store_defs demo_defs)

text \<open>
  The claim as it was written fails on the store that was never opened. With an
  \<^verbatim>\<open>EXECUTE\<close> before the \<^verbatim>\<open>CLOSE\<close>, the status returned is that of the
  \<^verbatim>\<open>EXECUTE\<close>, \<^verbatim>\<open>INITIALIZATION_ERROR\<close>, and the \<^verbatim>\<open>CLOSE\<close> is never evaluated. With an
  \<^verbatim>\<open>INITIALIZE\<close> before the \<^verbatim>\<open>CLOSE\<close>, the connection is open and the store
  initialized afterwards, which they were not before.
\<close>

theorem close_among_other_commands_counterexample:
  "cmd CLOSE [] \<in> set (tx_commands (tx 5 [cmd EXECUTE ''a'', cmd CLOSE []]))
   \<and> resp_status (fst (RunTransaction demo_sql (tx 5 [cmd EXECUTE ''a'', cmd CLOSE []])
        fresh_store)) = INITIALIZATION_ERROR
   \<and> cmd CLOSE [] \<in> set (tx_commands (tx 5 [cmd INITIALIZE [], cmd CLOSE []]))
   \<and> \<not> is_open fresh_store \<and> \<not> initialized fresh_store
   \<and> is_open (snd (RunTransaction demo_sql (tx 5 [cmd INITIALIZE [], cmd CLOSE []])
        fresh_store))
   \<and> initialized (snd (RunTransaction demo_sql (tx 5 [cmd INITIALIZE [], cmd CLOSE []])
        fresh_store))"
  by (simp add: store_defs demo_defs)

subsection \<open>\<^verbatim>\<open>MIGRATE\<close> and the stored version numbers\<close>

text \<open>
  Claim C8, as amended. On an initialized store \<^verbatim>\<open>MIGRATE\<close> succeeds and compares
  nothing. When the meta table exists, it stores exactly the version and the compatible
  version that its transaction carries, so that each stored number is at least what it
  was precisely when the number supplied is at least the number stored. When the meta
  table does not exist (the store was initialized in a transaction that was rolled back),
  it stores nothing and both numbers still read as 0.
\<close>

theorem migrate_overwrites_version:
  assumes "initialized db"
  shows "fst (Migrate version compatible_version db) = RESPONSE_OK
       \<and> (db_meta (content db) = Some (stored_version, stored_compatible) \<longrightarrow>
            GetVersionNumber (content (snd (Migrate version compatible_version db))) = version
            \<and> GetCompatibleVersionNumber
                 (content (snd (Migrate version compatible_version db))) = compatible_version
            \<and> (GetVersionNumber (content db) \<le>
                 GetVersionNumber (content (snd (Migrate version compatible_version db)))
               \<longleftrightarrow> stored_version \<le> version)
            \<and> (GetCompatibleVersionNumber (content db) \<le>
                 GetCompatibleVersionNumber
                   (content (snd (Migrate version compatible_version db)))
               \<longleftrightarrow> stored_compatible \<le> compatible_version))
       \<and> (db_meta (content db) = None \<longrightarrow>
            content (snd (Migrate version compatible_version db)) = content db
            \<and> GetVersionNumber (content (snd (Migrate version compatible_version db))) = 0
            \<and> GetCompatibleVersionNumber
                 (content (snd (Migrate version compatible_version db))) = 0)"
  using assms
  by (cases "db_meta (content db)")
     (simp_all add: Migrate_def called_def SetVersionNumber_def SetCompatibleVersionNumber_def
        GetVersionNumber_def GetCompatibleVersionNumber_def Let_def)

theorem migrate_overwrites_version_witness:
  "initialized ready_store \<and> db_meta (content ready_store) = Some (5, 5)
   \<and> fst (Migrate 7 6 ready_store) = RESPONSE_OK
   \<and> GetVersionNumber (content (snd (Migrate 7 6 ready_store))) = 7
   \<and> GetCompatibleVersionNumber (content (snd (Migrate 7 6 ready_store))) = 6
   \<and> initialized (snd (RunTransaction demo_sql (tx 5 [cmd INITIALIZE [], cmd CLOSE []])
        fresh_store))
   \<and> db_meta (content (snd (RunTransaction demo_sql (tx 5 [cmd INITIALIZE [], cmd CLOSE []])
        fresh_store))) = None
   \<and> fst (Migrate 7 6 (snd (RunTransaction demo_sql (tx 5 [cmd INITIALIZE [], cmd CLOSE []])
        fresh_store))) = RESPONSE_OK
   \<and> GetVersionNumber (content (snd (Migrate 7 6 (snd (RunTransaction demo_sql
        (tx 5 [cmd INITIALIZE [], cmd CLOSE []]) fresh_store))))) = 0"
proof -
  have h1: "initialized ready_store"
    by (simp add: ready_store_def)
  have h2: "db_meta (content ready_store) = Some (5, 5)"
    by (simp add: ready_store_def file_of_def)
  have h3: "initialized (snd (RunTransaction demo_sql (tx 5 [cmd INITIALIZE [], cmd CLOSE []])
        fresh_store))"
    by (simp add: store_defs demo_defs)
  have h4: "db_meta (content (snd (RunTransaction demo_sql
        (tx 5 [cmd INITIALIZE [], cmd CLOSE []]) fresh_store))) = None"
    by (simp add: store_defs demo_defs)
  show ?thesis
    using h1 h2 h3 h4
      migrate_overwrites_version [OF h1, of 7 6 5 5]
      migrate_overwrites_version [OF h3, of 7 6 5 5]
    by (simp add: GetVersionNumber_def)
qed

text \<open>
  The claim as it was written fails: after a transaction at version 5 initialized the
  store, a transaction at version 1 with a \<^verbatim>\<open>MIGRATE\<close> command succeeds and leaves both
  stored numbers at 1.
\<close>

theorem migrate_lowers_version_counterexample:
  "map resp_status (fst (run_transactions demo_sql
        [tx 5 [cmd INITIALIZE []], tx 1 [cmd MIGRATE []]] fresh_store))
     = [RESPONSE_OK, RESPONSE_OK]
   \<and> GetVersionNumber (content (snd (run_transactions demo_sql
        [tx 5 [cmd INITIALIZE []]] fresh_store))) = 5
   \<and> GetCompatibleVersionNumber (content (snd (run_transactions demo_sql
        [tx 5 [cmd INITIALIZE []]] fresh_store))) = 5
   \<and> GetVersionNumber (content (snd (run_transactions demo_sql
        [tx 5 [cmd INITIALIZE []], tx 1 [cmd MIGRATE []]] fresh_store))) = 1
   \<and> GetCompatibleVersionNumber (content (snd (run_transactions demo_sql
        [tx 5 [cmd INITIALIZE []], tx 1 [cmd MIGRATE []]] fresh_store))) = 1"
  by (simp add: store_defs demo_defs GetCompatibleVersionNumber_def)

section \<open>Properties of the State Migrator\<close>

text \<open>
  Where the migration stores nothing: without a preference value, without a decryption,
  without a parse. The parse fails when the text is no JSON, when either key is missing
  or holds no string, and when the seed is not base64.
\<close>

lemma migration_cases:
  "pref_data = [] \<Longrightarrow> StateMigrationV10_Migrate env pref_data
       = \<lparr>resolved = [LEDGER_OK], logged = [], saved = []\<rparr>"
  "pref_data \<noteq> [] \<Longrightarrow> Base64DecryptString env pref_data = None \<Longrightarrow>
     saved (StateMigrationV10_Migrate env pref_data) = []"
  "pref_data \<noteq> [] \<Longrightarrow> Base64DecryptString env pref_data = Some json \<Longrightarrow>
     ParseWalletJSON env json = None \<Longrightarrow>
     saved (StateMigrationV10_Migrate env pref_data) = []"
  by (simp_all add: StateMigrationV10_Migrate_def)

lemma ParseWalletJSON_fails:
  "JSONReader_Read env data = None \<Longrightarrow> ParseWalletJSON env data = None"
  "JSONReader_Read env data = Some root \<Longrightarrow> FindStringKey root ''payment_id'' = None \<Longrightarrow>
     ParseWalletJSON env data = None"
  "JSONReader_Read env data = Some root \<Longrightarrow> FindStringKey root ''recovery_seed'' = None \<Longrightarrow>
     ParseWalletJSON env data = None"
  "JSONReader_Read env data = Some root \<Longrightarrow> FindStringKey root ''recovery_seed'' = Some seed \<Longrightarrow>
     Base64Decode env seed = None \<Longrightarrow> ParseWalletJSON env data = None"
  by (simp_all add: ParseWalletJSON_def split: option.splits)

text \<open>
  Claim C5. Whatever the preference value, and whatever decryption, the JSON reader, the
  base64 decoder and the wallet store answer, \<^verbatim>\<open>Migrate\<close> invokes its callback once, with
  \<^verbatim>\<open>LEDGER_OK\<close>.
\<close>

theorem migration_resolves_ok:
  "resolved (StateMigrationV10_Migrate env pref_data) = [LEDGER_OK]"
  by (simp add: StateMigrationV10_Migrate_def Let_def split: option.splits)

theorem migration_resolves_ok_witness:
  "saved (StateMigrationV10_Migrate demo_migration_env ''Efull'')
     = [(\<lparr>payment_id = ''id'', recovery_seed = ''seed''\<rparr>, False)]
   \<and> resolved (StateMigrationV10_Migrate demo_migration_env ''Efull'') = [LEDGER_OK]
   \<and> resolved (StateMigrationV10_Migrate demo_migration_env ''Enoseed'') = [LEDGER_OK]
   \<and> resolved (StateMigrationV10_Migrate demo_migration_env ''xfull'') = [LEDGER_OK]
   \<and> resolved (StateMigrationV10_Migrate demo_migration_env []) = [LEDGER_OK]"
  using migration_resolves_ok [of demo_migration_env "''Efull''"]
    migration_resolves_ok [of demo_migration_env "''Enoseed''"]
    migration_resolves_ok [of demo_migration_env "''xfull''"]
    migration_resolves_ok [of demo_migration_env "[]"]
  by (simp add: StateMigrationV10_Migrate_def ParseWalletJSON_def demo_migration_env_def)

section \<open>Properties of the Custodian Wallet Authorizer\<close>

lemmas authorization_defs =
  WalletAuthorization_def OnAuthorize_def failed_def argument_def renewed_def authorized_def

lemmas test_defs = test_wallet_def test_custodian_def quiet_custodian_def

text \<open>
  The model against the table of uphold\_unittest.cc: for each of its fifteen cases, in
  their order, the result handed to the callback and the status of the wallet that the
  test then finds (none when there is no wallet). The empty answer of the cases 00 to 10
  and the status 500 of case 11 are both the transport error.
\<close>

lemma authorization_unit_tests:
  "WalletAuthorization (test_custodian False TRANSPORT_ERROR None False) [] None
     = failed LEDGER_ERROR None []"
  "WalletAuthorization
     (test_custodian False TRANSPORT_ERROR (Some (test_wallet VERIFIED [])) False) []
     (Some (test_wallet VERIFIED []))
     = failed LEDGER_ERROR (Some (test_wallet VERIFIED [])) []"
  "WalletAuthorization
     (test_custodian False TRANSPORT_ERROR (Some (test_wallet NOT_CONNECTED [])) False) []
     (Some (test_wallet NOT_CONNECTED []))
     = failed LEDGER_ERROR (Some (test_wallet NOT_CONNECTED [])) []"
  "WalletAuthorization
     (test_custodian True TRANSPORT_ERROR (Some (test_wallet NOT_CONNECTED [])) False)
     [(''error_description'', ''User does not meet minimum requirements'')]
     (Some (test_wallet NOT_CONNECTED []))
     = failed NOT_FOUND (Some (test_wallet NOT_CONNECTED ''next'')) []"
  "WalletAuthorization
     (test_custodian True TRANSPORT_ERROR (Some (test_wallet NOT_CONNECTED [])) False)
     [(''error_description'', ''some other reason'')]
     (Some (test_wallet NOT_CONNECTED []))
     = failed LEDGER_ERROR (Some (test_wallet NOT_CONNECTED ''next'')) []"
  "WalletAuthorization
     (test_custodian True TRANSPORT_ERROR (Some (test_wallet NOT_CONNECTED [])) False) []
     (Some (test_wallet NOT_CONNECTED []))
     = failed LEDGER_ERROR (Some (test_wallet NOT_CONNECTED ''next'')) []"
  "WalletAuthorization
     (test_custodian True TRANSPORT_ERROR (Some (test_wallet NOT_CONNECTED [])) False)
     [(''code'', [])] (Some (test_wallet NOT_CONNECTED []))
     = failed LEDGER_ERROR (Some (test_wallet NOT_CONNECTED ''next'')) []"
  "WalletAuthorization
     (test_custodian True TRANSPORT_ERROR (Some (test_wallet NOT_CONNECTED [])) False)
     [(''code'', ''code''), (''state'', [])] (Some (test_wallet NOT_CONNECTED []))
     = failed LEDGER_ERROR (Some (test_wallet NOT_CONNECTED ''next'')) []"
  "WalletAuthorization
     (test_custodian True TRANSPORT_ERROR
        (Some (test_wallet NOT_CONNECTED ''one_time_string'')) False)
     [(''code'', ''code''), (''state'', ''mismatch'')]
     (Some (test_wallet NOT_CONNECTED ''one_time_string''))
     = failed LEDGER_ERROR (Some (test_wallet NOT_CONNECTED ''next'')) []"
  "WalletAuthorization (test_custodian True TRANSPORT_ERROR None False)
     [(''code'', ''code''), (''state'', ''one_time_string'')]
     (Some (test_wallet NOT_CONNECTED ''one_time_string''))
     = failed LEDGER_ERROR None [''code'']"
  "WalletAuthorization
     (test_custodian True TRANSPORT_ERROR (Some (test_wallet VERIFIED [])) False)
     [(''code'', ''code''), (''state'', ''one_time_string'')]
     (Some (test_wallet NOT_CONNECTED ''one_time_string''))
     = failed LEDGER_ERROR (Some (test_wallet VERIFIED [])) [''code'']"
  "WalletAuthorization
     (test_custodian True TRANSPORT_ERROR
        (Some (test_wallet NOT_CONNECTED ''one_time_string'')) False)
     [(''code'', ''code''), (''state'', ''one_time_string'')]
     (Some (test_wallet NOT_CONNECTED ''one_time_string''))
     = failed LEDGER_ERROR (Some (test_wallet NOT_CONNECTED ''one_time_string'')) [''code'']"
  "WalletAuthorization
     (test_custodian True (ACCESS_TOKEN [])
        (Some (test_wallet NOT_CONNECTED ''one_time_string'')) False)
     [(''code'', ''code''), (''state'', ''one_time_string'')]
     (Some (test_wallet NOT_CONNECTED ''one_time_string''))
     = failed LEDGER_ERROR (Some (test_wallet NOT_CONNECTED ''one_time_string'')) [''code'']"
  "WalletAuthorization
     (test_custodian True (ACCESS_TOKEN ''access_token'')
        (Some (test_wallet NOT_CONNECTED ''one_time_string'')) False)
     [(''code'', ''code''), (''state'', ''one_time_string'')]
     (Some (test_wallet NOT_CONNECTED ''one_time_string''))
     = failed LEDGER_ERROR (Some (test_wallet NOT_CONNECTED ''one_time_string'')) [''code'']"
  "WalletAuthorization
     (test_custodian True (ACCESS_TOKEN ''access_token'')
        (Some (test_wallet NOT_CONNECTED ''one_time_string'')) True)
     [(''code'', ''code''), (''state'', ''one_time_string'')]
     (Some (test_wallet NOT_CONNECTED ''one_time_string''))
     = \<lparr>auth_result = LEDGER_OK, auth_args = [],
        auth_wallet = Some ((test_wallet NOT_CONNECTED ''one_time_string'')
          \<lparr>wallet_token := ''access_token'', wallet_status := PENDING\<rparr>),
        auth_exchanged = [''code'']\<rparr>"
  by (simp_all add: authorization_defs test_defs)

text \<open>The call up to the token exchange, when no check before it fails.\<close>

lemma WalletAuthorization_exchanges:
  assumes "wallet_status wallet \<noteq> VERIFIED" "SetWallet_1 env (renewed env wallet)"
    and "map_of args ''error_description'' = None"
    and "argument args ''code'' \<noteq> []"
    and "argument args ''state'' = one_time_string wallet"
    and "one_time_string wallet \<noteq> []"
  shows "WalletAuthorization env args (Some wallet)
           = OnAuthorize env (argument args ''code'') (exchange env (argument args ''code''))
               (during_exchange env (Some (renewed env wallet)))"
proof -
  have "args \<noteq> []"
    using assms(4) by (auto simp: argument_def)
  then show ?thesis
    using assms by (simp add: WalletAuthorization_def Let_def)
qed

lemma WalletAuthorization_verified:
  assumes "wallet_status wallet = VERIFIED"
  shows "WalletAuthorization env args (Some wallet) = failed LEDGER_ERROR (Some wallet) []"
  using assms by (simp add: WalletAuthorization_def)

lemma WalletAuthorization_described:
  assumes "wallet_status wallet \<noteq> VERIFIED" "SetWallet_1 env (renewed env wallet)"
    and "map_of args ''error_description'' = Some description"
  shows "WalletAuthorization env args (Some wallet)
           = failed (if description = ''User does not meet minimum requirements''
                     then NOT_FOUND else LEDGER_ERROR) (Some (renewed env wallet)) []"
  using assms by (simp add: WalletAuthorization_def Let_def)

text \<open>
  Claim C2. A wallet whose status is \<^verbatim>\<open>VERIFIED\<close> when \<^verbatim>\<open>WalletAuthorization\<close> reads
  it makes the call fail with \<^verbatim>\<open>LEDGER_ERROR\<close>, whatever the arguments and the
  custodian: nothing is written, no code is sent to the token endpoint, and the stored
  wallet is the same afterwards, its status still \<^verbatim>\<open>VERIFIED\<close>. The same holds when the
  wallet is found \<^verbatim>\<open>VERIFIED\<close> at the second read, after the code was exchanged: the call
  fails with \<^verbatim>\<open>LEDGER_ERROR\<close> and the verified wallet stays as it is, whatever the token
  endpoint answered.
\<close>

theorem verified_wallet_not_reauthorized:
  shows "(wallet_status wallet = VERIFIED \<longrightarrow>
            auth_result (WalletAuthorization env args (Some wallet)) = LEDGER_ERROR
            \<and> auth_wallet (WalletAuthorization env args (Some wallet)) = Some wallet
            \<and> map_option wallet_status (auth_wallet (WalletAuthorization env args (Some wallet)))
                = Some VERIFIED
            \<and> auth_exchanged (WalletAuthorization env args (Some wallet)) = [])
       \<and> (wallet_status earlier \<noteq> VERIFIED \<and> SetWallet_1 env (renewed env earlier)
            \<and> map_of args ''error_description'' = None
            \<and> argument args ''code'' \<noteq> []
            \<and> argument args ''state'' = one_time_string earlier
            \<and> one_time_string earlier \<noteq> []
            \<and> during_exchange env (Some (renewed env earlier)) = Some wallet
            \<and> wallet_status wallet = VERIFIED \<longrightarrow>
            auth_result (WalletAuthorization env args (Some earlier)) = LEDGER_ERROR
            \<and> auth_wallet (WalletAuthorization env args (Some earlier)) = Some wallet
            \<and> map_option wallet_status
                 (auth_wallet (WalletAuthorization env args (Some earlier))) = Some VERIFIED)"
proof (intro conjI impI)
  assume v: "wallet_status wallet = VERIFIED"
  note eq = WalletAuthorization_verified [OF v, of env args]
  show "auth_result (WalletAuthorization env args (Some wallet)) = LEDGER_ERROR"
    using eq by (simp add: failed_def)
  show "auth_wallet (WalletAuthorization env args (Some wallet)) = Some wallet"
    using eq by (simp add: failed_def)
  show "map_option wallet_status (auth_wallet (WalletAuthorization env args (Some wallet)))
      = Some VERIFIED"
    using eq v by (simp add: failed_def)
  show "auth_exchanged (WalletAuthorization env args (Some wallet)) = []"
    using eq by (simp add: failed_def)
next
  assume a: "wallet_status earlier \<noteq> VERIFIED \<and> SetWallet_1 env (renewed env earlier)
            \<and> map_of args ''error_description'' = None
            \<and> argument args ''code'' \<noteq> []
            \<and> argument args ''state'' = one_time_string earlier
            \<and> one_time_string earlier \<noteq> []
            \<and> during_exchange env (Some (renewed env earlier)) = Some wallet
            \<and> wallet_status wallet = VERIFIED"
  then have "WalletAuthorization env args (Some earlier)
      = OnAuthorize env (argument args ''code'') (exchange env (argument args ''code''))
          (Some wallet)"
    by (simp add: WalletAuthorization_exchanges)
  then have eq: "WalletAuthorization env args (Some earlier)
      = failed LEDGER_ERROR (Some wallet) [argument args ''code'']"
    using a by (simp add: OnAuthorize_def)
  show "auth_result (WalletAuthorization env args (Some earlier)) = LEDGER_ERROR"
    using eq by (simp add: failed_def)
  show "auth_wallet (WalletAuthorization env args (Some earlier)) = Some wallet"
    using eq by (simp add: failed_def)
  show "map_option wallet_status
      (auth_wallet (WalletAuthorization env args (Some earlier))) = Some VERIFIED"
    using eq a by (simp add: failed_def)
qed

theorem verified_wallet_not_reauthorized_witness:
  "auth_result (WalletAuthorization (quiet_custodian (ACCESS_TOKEN ''access_token''))
        [(''code'', ''code''), (''state'', ''one_time_string'')]
        (Some (test_wallet NOT_CONNECTED ''one_time_string''))) = LEDGER_OK
   \<and> WalletAuthorization
        (test_custodian True (ACCESS_TOKEN ''access_token'')
           (Some (test_wallet NOT_CONNECTED ''one_time_string'')) True)
        [(''code'', ''code''), (''state'', ''one_time_string'')]
        (Some (test_wallet VERIFIED ''one_time_string''))
     = \<lparr>auth_result = LEDGER_ERROR, auth_args = [],
        auth_wallet = Some (test_wallet VERIFIED ''one_time_string''), auth_exchanged = []\<rparr>
   \<and> WalletAuthorization
        (test_custodian True (ACCESS_TOKEN ''access_token'')
           (Some (test_wallet VERIFIED ''one_time_string'')) True)
        [(''code'', ''code''), (''state'', ''one_time_string'')]
        (Some (test_wallet NOT_CONNECTED ''one_time_string''))
     = \<lparr>auth_result = LEDGER_ERROR, auth_args = [],
        auth_wallet = Some (test_wallet VERIFIED ''one_time_string''),
        auth_exchanged = [''code'']\<rparr>"
  using verified_wallet_not_reauthorized [where
      wallet = "test_wallet VERIFIED ''one_time_string''"
      and env = "test_custodian True (ACCESS_TOKEN ''access_token'')
           (Some (test_wallet NOT_CONNECTED ''one_time_string'')) True"
      and args = "[(''code'', ''code''), (''state'', ''one_time_string'')]"
      and earlier = "test_wallet NOT_CONNECTED ''one_time_string''"]
    verified_wallet_not_reauthorized [where
      wallet = "test_wallet VERIFIED ''one_time_string''"
      and env = "test_custodian True (ACCESS_TOKEN ''access_token'')
           (Some (test_wallet VERIFIED ''one_time_string'')) True"
      and args = "[(''code'', ''code''), (''state'', ''one_time_string'')]"
      and earlier = "test_wallet NOT_CONNECTED ''one_time_string''"]
  by (simp add: authorization_defs test_defs)




text \<open>
  Claim C9. The custodian's report of an error reaches the call in two ways. As the
  argument \<^verbatim>\<open>error_description\<close> (the cases 03 and 04 of the table), once the wallet was
  read, found not \<^verbatim>\<open>VERIFIED\<close> and written: the result is \<^verbatim>\<open>NOT_FOUND\<close> if the
  description is \<^verbatim>\<open>User does not meet minimum requirements\<close> and \<^verbatim>\<open>LEDGER_ERROR\<close> for
  every other description; no code is exchanged and the status of the stored wallet is
  what it was. As the answer of the token exchange (section 4.2, steps 5 and 6), once
  the call has reached the exchange and the wallet is read again, not \<^verbatim>\<open>VERIFIED\<close>: the
  results are the same, and the stored wallet is the one that was read.
\<close>

theorem ineligible_user_not_found:
  shows "(wallet_status wallet \<noteq> VERIFIED \<and> SetWallet_1 env (renewed env wallet)
            \<and> map_of args ''error_description'' = Some description \<longrightarrow>
            auth_result (WalletAuthorization env args (Some wallet))
              = (if description = ''User does not meet minimum requirements''
                 then NOT_FOUND else LEDGER_ERROR)
            \<and> auth_exchanged (WalletAuthorization env args (Some wallet)) = []
            \<and> map_option wallet_status (auth_wallet (WalletAuthorization env args (Some wallet)))
                = Some (wallet_status wallet))
       \<and> (wallet_status wallet \<noteq> VERIFIED \<and> SetWallet_1 env (renewed env wallet)
            \<and> map_of args ''error_description'' = None
            \<and> argument args ''code'' \<noteq> []
            \<and> argument args ''state'' = one_time_string wallet
            \<and> one_time_string wallet \<noteq> []
            \<and> during_exchange env (Some (renewed env wallet)) = Some reread
            \<and> wallet_status reread \<noteq> VERIFIED
            \<and> exchange env (argument args ''code'') = ERROR_DESCRIPTION description \<longrightarrow>
            auth_result (WalletAuthorization env args (Some wallet))
              = (if description = ''User does not meet minimum requirements''
                 then NOT_FOUND else LEDGER_ERROR)
            \<and> auth_wallet (WalletAuthorization env args (Some wallet)) = Some reread
            \<and> auth_exchanged (WalletAuthorization env args (Some wallet))
                = [argument args ''code''])"
proof (intro conjI impI)
  assume a: "wallet_status wallet \<noteq> VERIFIED \<and> SetWallet_1 env (renewed env wallet)
            \<and> map_of args ''error_description'' = Some description"
  then have eq: "WalletAuthorization env args (Some wallet)
      = failed (if description = ''User does not meet minimum requirements''
                then NOT_FOUND else LEDGER_ERROR) (Some (renewed env wallet)) []"
    by (simp add: WalletAuthorization_described)
  show "auth_result (WalletAuthorization env args (Some wallet))
      = (if description = ''User does not meet minimum requirements''
         then NOT_FOUND else LEDGER_ERROR)"
    unfolding eq by (simp add: failed_def)
  show "auth_exchanged (WalletAuthorization env args (Some wallet)) = []"
    unfolding eq by (simp add: failed_def)
  show "map_option wallet_status (auth_wallet (WalletAuthorization env args (Some wallet)))
      = Some (wallet_status wallet)"
    unfolding eq by (simp add: failed_def renewed_def)
next
  assume a: "wallet_status wallet \<noteq> VERIFIED \<and> SetWallet_1 env (renewed env wallet)
            \<and> map_of args ''error_description'' = None
            \<and> argument args ''code'' \<noteq> []
            \<and> argument args ''state'' = one_time_string wallet
            \<and> one_time_string wallet \<noteq> []
            \<and> during_exchange env (Some (renewed env wallet)) = Some reread
            \<and> wallet_status reread \<noteq> VERIFIED
            \<and> exchange env (argument args ''code'') = ERROR_DESCRIPTION description"
  then have "WalletAuthorization env args (Some wallet)
      = OnAuthorize env (argument args ''code'') (ERROR_DESCRIPTION description) (Some reread)"
    by (simp add: WalletAuthorization_exchanges)
  then have eq: "WalletAuthorization env args (Some wallet)
      = failed (if description = ''User does not meet minimum requirements''
                then NOT_FOUND else LEDGER_ERROR) (Some reread) [argument args ''code'']"
    using a by (simp add: OnAuthorize_def)
  show "auth_result (WalletAuthorization env args (Some wallet))
      = (if description = ''User does not meet minimum requirements''
         then NOT_FOUND else LEDGER_ERROR)"
    unfolding eq by (simp add: failed_def)
  show "auth_wallet (WalletAuthorization env args (Some wallet)) = Some reread"
    unfolding eq by (simp add: failed_def)
  show "auth_exchanged (WalletAuthorization env args (Some wallet)) = [argument args ''code'']"
    unfolding eq by (simp add: failed_def)
qed

theorem ineligible_user_not_found_witness:
  "WalletAuthorization
     (test_custodian True TRANSPORT_ERROR (Some (test_wallet NOT_CONNECTED [])) False)
     [(''error_description'', ''User does not meet minimum requirements'')]
     (Some (test_wallet NOT_CONNECTED []))
     = \<lparr>auth_result = NOT_FOUND, auth_args = [],
        auth_wallet = Some (test_wallet NOT_CONNECTED ''next''), auth_exchanged = []\<rparr>
   \<and> auth_result (WalletAuthorization
        (test_custodian True TRANSPORT_ERROR (Some (test_wallet NOT_CONNECTED [])) False)
        [(''error_description'', ''some other reason'')]
        (Some (test_wallet NOT_CONNECTED []))) = LEDGER_ERROR
   \<and> WalletAuthorization
        (quiet_custodian (ERROR_DESCRIPTION ''User does not meet minimum requirements''))
        [(''code'', ''code''), (''state'', ''one_time_string'')]
        (Some (test_wallet NOT_CONNECTED ''one_time_string''))
     = \<lparr>auth_result = NOT_FOUND, auth_args = [],
        auth_wallet = Some (test_wallet NOT_CONNECTED ''next''), auth_exchanged = [''code'']\<rparr>
   \<and> auth_result (WalletAuthorization
        (quiet_custodian (ERROR_DESCRIPTION ''some other reason''))
        [(''code'', ''code''), (''state'', ''one_time_string'')]
        (Some (test_wallet NOT_CONNECTED ''one_time_string''))) = LEDGER_ERROR"
  using ineligible_user_not_found [where
      wallet = "test_wallet NOT_CONNECTED []"
      and env = "test_custodian True TRANSPORT_ERROR (Some (test_wallet NOT_CONNECTED [])) False"
      and args = "[(''error_description'', ''User does not meet minimum requirements'')]"
      and description = "''User does not meet minimum requirements''"]
    ineligible_user_not_found [where
      wallet = "test_wallet NOT_CONNECTED []"
      and env = "test_custodian True TRANSPORT_ERROR (Some (test_wallet NOT_CONNECTED [])) False"
      and args = "[(''error_description'', ''some other reason'')]"
      and description = "''some other reason''"]
    ineligible_user_not_found [where
      wallet = "test_wallet NOT_CONNECTED ''one_time_string''"
      and env = "quiet_custodian (ERROR_DESCRIPTION ''User does not meet minimum requirements'')"
      and args = "[(''code'', ''code''), (''state'', ''one_time_string'')]"
      and description = "''User does not meet minimum requirements''"
      and reread = "test_wallet NOT_CONNECTED ''next''"]
    ineligible_user_not_found [where
      wallet = "test_wallet NOT_CONNECTED ''one_time_string''"
      and env = "quiet_custodian (ERROR_DESCRIPTION ''some other reason'')"
      and args = "[(''code'', ''code''), (''state'', ''one_time_string'')]"
      and description = "''some other reason''"
      and reread = "test_wallet NOT_CONNECTED ''next''"]
  by (simp add: authorization_defs test_defs)

section \<open>Properties of the Refill Coordinator\<close>

lemma Refill_is_processing: "is_processing (Refill env s)"
  by (simp add: Refill_def RequestSignedTokens_def Let_def)

text \<open>
  Claim C4. While a cycle is in flight (\<^verbatim>\<open>is_processing_\<close> is set), \<^verbatim>\<open>MaybeRefill\<close>
  returns the coordinator as it was: no member changes, no request is added, and the
  coordinator has no member in which a call could be queued. Hence a second call right
  after a first one changes nothing, from any state and for any wallets.
\<close>

theorem refill_in_flight_dropped:
  assumes "is_processing s"
  shows "MaybeRefill env wallet s = s
       \<and> requests (MaybeRefill env wallet s) = requests s
       \<and> MaybeRefill env second (MaybeRefill env first idle) = MaybeRefill env first idle"
proof -
  have dropped: "MaybeRefill env wallet s = s"
    using assms by (simp add: MaybeRefill_def)
  have again: "MaybeRefill env second (MaybeRefill env first idle) = MaybeRefill env first idle"
  proof (cases "is_processing idle \<or> \<not> ShouldRefillUnblindedTokens env idle")
    case True
    then have "MaybeRefill env first idle = idle"
      by (auto simp: MaybeRefill_def)
    moreover from True have "MaybeRefill env second idle = idle"
      by (auto simp: MaybeRefill_def)
    ultimately show ?thesis by simp
  next
    case False
    then have "MaybeRefill env first idle = Refill env (idle\<lparr>refill_wallet := first\<rparr>)"
      by (simp add: MaybeRefill_def)
    then show ?thesis
      by (simp add: Refill_is_processing MaybeRefill_def)
  qed
  show ?thesis
    using dropped again by simp
qed

theorem refill_in_flight_dropped_witness:
  "is_processing (MaybeRefill demo_refill_env ''w'' idle_refill)
   \<and> requests (MaybeRefill demo_refill_env ''w'' idle_refill)
       = [REQUEST_SIGNED_TOKENS ''w'' ''n'' [''bt'', ''bt'']]
   \<and> MaybeRefill demo_refill_env ''other'' (MaybeRefill demo_refill_env ''w'' idle_refill)
       = MaybeRefill demo_refill_env ''w'' idle_refill"
proof -
  have h: "is_processing (MaybeRefill demo_refill_env ''w'' idle_refill)"
    by (simp add: MaybeRefill_def Refill_def RequestSignedTokens_def
        ShouldRefillUnblindedTokens_def CalculateAmountOfTokensToRefill_def
        demo_refill_env_def idle_refill_def Let_def)
  have r: "requests (MaybeRefill demo_refill_env ''w'' idle_refill)
       = [REQUEST_SIGNED_TOKENS ''w'' ''n'' [''bt'', ''bt'']]"
    by (simp add: MaybeRefill_def Refill_def RequestSignedTokens_def
        ShouldRefillUnblindedTokens_def CalculateAmountOfTokensToRefill_def
        demo_refill_env_def idle_refill_def Let_def numeral_2_eq_2)
  show ?thesis
    using h r refill_in_flight_dropped [OF h, of demo_refill_env "''other''" "''other''" "''w''"
        idle_refill]
    by simp
qed

end
